theory Spec2Isabelle
  imports Complex_Main "HOL-Library.Word" "HOL-Library.Sublist" "HOL-Library.AList"
begin

section \<open>JavaScript strings and values\<close>

text \<open>
  The service layer \<^verbatim>\<open>src/services/geminiService.ts\<close> runs on the JavaScript
  host.  A JavaScript string is a sequence of UTF-16 code units, so a string is a list of
  16-bit words; \<open>lit\<close> reads an ASCII literal of the source as such a list, and a
  character beyond ASCII is written as its code unit (\<open>0xE9\<close> for the e-acute of
  \<^verbatim>\<open>saute\<close>).
\<close>

type_synonym jsstring = "16 word list"

definition lit :: "string \<Rightarrow> jsstring" where
  "lit s = map of_char s"

text \<open>
  The values \<^verbatim>\<open>JSON.parse\<close> can return, and \<^verbatim>\<open>undefined\<close> for a
  property that is not there.  A number is the rational its double denotes (minus zero
  read as zero), or one of the three values that are no rationals.  An object keeps its
  properties in order; the first entry of a key is the one a lookup sees.
\<close>

datatype jsnum = Finite rat | PosInfinity | NegInfinity | NaN

datatype jsval =
    JUndefined
  | JNull
  | JBool bool
  | JNum jsnum
  | JStr jsstring
  | JArr "jsval list"
  | JObj "(jsstring \<times> jsval) list"

text \<open>What a \<^verbatim>\<open>throw\<close> or a rejected promise carries.\<close>

datatype js_error =
    TypeError
  | SyntaxError
  | URIError
  | InvalidCharacterError
  | ProgressEvent
  | Error jsstring

text \<open>
  A computation that may throw returns \<open>Inl\<close> of what it throws; \<open>andThen\<close>
  runs the next statement of a block on the value of the one before, and skips it
  after a throw.
\<close>

definition andThen :: "'e + 'a \<Rightarrow> ('a \<Rightarrow> 'e + 'b) \<Rightarrow> 'e + 'b" where
  "andThen r f = (case r of Inl e \<Rightarrow> Inl e | Inr x \<Rightarrow> f x)"

text \<open>
  \<^verbatim>\<open>console.error(message, arg)\<close>: the console is the list of the calls made, in
  order.  The second argument is the response text (\<open>None\<close> when the response has
  none) or the error caught.
\<close>

datatype console_arg = ArgText "jsstring option" | ArgError js_error

type_synonym console = "(jsstring \<times> console_arg) list"

subsection \<open>String operations of the host that the service uses\<close>

text \<open>
  \<^verbatim>\<open>String.prototype.trim\<close> removes the white space and line terminators of
  ECMAScript from both ends: TAB, LF, VT, FF, CR, SPACE, NBSP, U+1680, U+2000 to U+200A,
  U+2028, U+2029, U+202F, U+205F, U+3000 and U+FEFF.
\<close>

definition isWhiteSpace :: "16 word \<Rightarrow> bool" where
  "isWhiteSpace c \<longleftrightarrow>
     c = 0x9 \<or> c = 0xA \<or> c = 0xB \<or> c = 0xC \<or> c = 0xD \<or> c = 0x20 \<or> c = 0xA0 \<or>
     c = 0x1680 \<or> (0x2000 \<le> c \<and> c \<le> 0x200A) \<or> c = 0x2028 \<or> c = 0x2029 \<or>
     c = 0x202F \<or> c = 0x205F \<or> c = 0x3000 \<or> c = 0xFEFF"

definition trim :: "jsstring \<Rightarrow> jsstring" where
  "trim s = rev (dropWhile isWhiteSpace (rev (dropWhile isWhiteSpace s)))"

text \<open>\<^verbatim>\<open>s.includes(p)\<close>: \<open>p\<close> occurs in \<open>s\<close> as a run of consecutive code units.\<close>

fun str_includes :: "jsstring \<Rightarrow> jsstring \<Rightarrow> bool" where
  "str_includes [] p = (p = [])"
| "str_includes (c # cs) p = (prefix p (c # cs) \<or> str_includes cs p)"

text \<open>\<^verbatim>\<open>xs.join(sep)\<close> on an array of strings.\<close>

fun join :: "jsstring \<Rightarrow> jsstring list \<Rightarrow> jsstring" where
  "join sep [] = []"
| "join sep [x] = x"
| "join sep (x # y # ys) = x @ sep @ join sep (y # ys)"

text \<open>\<^verbatim>\<open>s.split(c)\<close> for a separator of one code unit; the empty string gives one empty piece.\<close>

fun split :: "16 word \<Rightarrow> jsstring \<Rightarrow> jsstring list" where
  "split c [] = [[]]"
| "split c (x # xs) =
     (if x = c then [] # split c xs
      else (case split c xs of [] \<Rightarrow> [[x]] | y # ys \<Rightarrow> (x # y) # ys))"

text \<open>A non-negative integer in a template literal: its decimal digits.\<close>

fun decimal :: "nat \<Rightarrow> jsstring" where
  "decimal n = (if n < 10 then [0x30 + of_nat n] else decimal (n div 10) @ [0x30 + of_nat (n mod 10)])"

text \<open>
  \<^verbatim>\<open>encodeURIComponent\<close>: every code unit outside the unreserved set is replaced by the
  percent-escaped octets of the UTF-8 form of its code point; a surrogate pair is one code
  point, and a surrogate that has no partner throws \<^verbatim>\<open>URIError\<close>.
\<close>

definition uriUnreserved :: "16 word \<Rightarrow> bool" where
  "uriUnreserved c \<longleftrightarrow>
     (0x41 \<le> c \<and> c \<le> 0x5A) \<or> (0x61 \<le> c \<and> c \<le> 0x7A) \<or> (0x30 \<le> c \<and> c \<le> 0x39) \<or>
     c \<in> set (lit ''-_.!~*'' @ [0x27] @ lit ''()'')"

definition hexDigit :: "nat \<Rightarrow> 16 word" where
  "hexDigit n = lit ''0123456789ABCDEF'' ! n"

definition percentEscape :: "nat \<Rightarrow> jsstring" where
  "percentEscape octet = [0x25, hexDigit (octet div 16), hexDigit (octet mod 16)]"

definition utf8 :: "nat \<Rightarrow> nat list" where
  "utf8 cp =
     (if cp < 0x80 then [cp]
      else if cp < 0x800 then [0xC0 + cp div 64, 0x80 + cp mod 64]
      else if cp < 0x10000 then [0xE0 + cp div 4096, 0x80 + cp div 64 mod 64, 0x80 + cp mod 64]
      else [0xF0 + cp div 262144, 0x80 + cp div 4096 mod 64, 0x80 + cp div 64 mod 64,
            0x80 + cp mod 64])"

definition escapeCodePoint :: "nat \<Rightarrow> jsstring" where
  "escapeCodePoint cp = concat (map percentEscape (utf8 cp))"

definition isLeadSurrogate :: "16 word \<Rightarrow> bool" where
  "isLeadSurrogate c \<longleftrightarrow> 0xD800 \<le> c \<and> c \<le> 0xDBFF"

definition isTrailSurrogate :: "16 word \<Rightarrow> bool" where
  "isTrailSurrogate c \<longleftrightarrow> 0xDC00 \<le> c \<and> c \<le> 0xDFFF"

definition surrogatePair :: "16 word \<Rightarrow> 16 word \<Rightarrow> nat" where
  "surrogatePair c d = (unat c - 0xD800) * 0x400 + (unat d - 0xDC00) + 0x10000"

fun encodeURIComponent :: "jsstring \<Rightarrow> js_error + jsstring" where
  "encodeURIComponent [] = Inr []"
| "encodeURIComponent [c] =
     (if uriUnreserved c then Inr [c]
      else if isLeadSurrogate c \<or> isTrailSurrogate c then Inl URIError
      else Inr (escapeCodePoint (unat c)))"
| "encodeURIComponent (c # d # ds) =
     (if uriUnreserved c then andThen (encodeURIComponent (d # ds)) (\<lambda>r. Inr (c # r))
      else if isLeadSurrogate c then
        (if isTrailSurrogate d
         then andThen (encodeURIComponent ds) (\<lambda>r. Inr (escapeCodePoint (surrogatePair c d) @ r))
         else Inl URIError)
      else if isTrailSurrogate c then Inl URIError
      else andThen (encodeURIComponent (d # ds)) (\<lambda>r. Inr (escapeCodePoint (unat c) @ r)))"

text \<open>
  \<^verbatim>\<open>btoa\<close>: the Base64 form of a string of code units below 256, and
  \<^verbatim>\<open>InvalidCharacterError\<close> for a string that holds any other code unit.
\<close>

definition base64Digit :: "nat \<Rightarrow> 16 word" where
  "base64Digit n =
     lit ''ABCDEFGHIJKLMNOPQRSTUVWXYZabcdefghijklmnopqrstuvwxyz0123456789+/'' ! n"

fun base64 :: "nat list \<Rightarrow> jsstring" where
  "base64 [] = []"
| "base64 [a] = [base64Digit (a div 4), base64Digit (a mod 4 * 16), 0x3D, 0x3D]"
| "base64 [a, b] =
     [base64Digit (a div 4), base64Digit (a mod 4 * 16 + b div 16),
      base64Digit (b mod 16 * 4), 0x3D]"
| "base64 (a # b # c # rest) =
     [base64Digit (a div 4), base64Digit (a mod 4 * 16 + b div 16),
      base64Digit (b mod 16 * 4 + c div 64), base64Digit (c mod 64)] @ base64 rest"

definition btoa :: "jsstring \<Rightarrow> js_error + jsstring" where
  "btoa s = (if list_ex (\<lambda>c. 0xFF < c) s then Inl InvalidCharacterError
             else Inr (base64 (map unat s)))"

subsection \<open>Truthiness, property access, object spread\<close>

text \<open>The falsy values are undefined, null, false, zero, NaN and the empty string.\<close>

fun truthy :: "jsval \<Rightarrow> bool" where
  "truthy JUndefined = False"
| "truthy JNull = False"
| "truthy (JBool b) = b"
| "truthy (JNum n) = (n \<noteq> Finite 0 \<and> n \<noteq> NaN)"
| "truthy (JStr s) = (s \<noteq> [])"
| "truthy (JArr xs) = True"
| "truthy (JObj kvs) = True"

text \<open>
  \<^verbatim>\<open>v.key\<close> for a key that no prototype defines, as are all the keys the
  service reads (of an answer: \<^verbatim>\<open>ingredients\<close>, \<^verbatim>\<open>recipes\<close>,
  \<^verbatim>\<open>totalTime\<close>, \<^verbatim>\<open>servingTime\<close>, \<^verbatim>\<open>steps\<close>,
  \<^verbatim>\<open>efficiencyTips\<close>, \<^verbatim>\<open>timelineSummary\<close>; of a recipe:
  \<^verbatim>\<open>recipeName\<close>, \<^verbatim>\<open>ingredients\<close>, \<^verbatim>\<open>instructions\<close>,
  \<^verbatim>\<open>prepTime\<close>, \<^verbatim>\<open>cookTime\<close>, \<^verbatim>\<open>cookingTime\<close>,
  \<^verbatim>\<open>difficulty\<close>, \<^verbatim>\<open>servingSize\<close>,
  \<^verbatim>\<open>servingAdjustment\<close>): a \<^verbatim>\<open>TypeError\<close> on undefined and null,
  the own property of an object, and undefined on everything else.
\<close>

fun getProp :: "jsval \<Rightarrow> jsstring \<Rightarrow> js_error + jsval" where
  "getProp JUndefined k = Inl TypeError"
| "getProp JNull k = Inl TypeError"
| "getProp (JObj kvs) k = Inr (case map_of kvs k of None \<Rightarrow> JUndefined | Some v \<Rightarrow> v)"
| "getProp v k = Inr JUndefined"

text \<open>
  \<^verbatim>\<open>v.map(f)\<close> on a value that came from \<^verbatim>\<open>JSON.parse\<close>: only an array
  has a callable \<^verbatim>\<open>map\<close>; on every other value the call is a \<^verbatim>\<open>TypeError\<close>.
\<close>

fun arrayMap :: "(jsval \<Rightarrow> jsval) \<Rightarrow> jsval \<Rightarrow> js_error + jsval list" where
  "arrayMap f (JArr xs) = Inr (map f xs)"
| "arrayMap f v = Inl TypeError"

text \<open>
  The own enumerable properties that \<^verbatim>\<open>{...v}\<close> copies: those of an object, the
  indexed elements of an array, the indexed code units of a string, and none of any other
  value.
\<close>

fun spread :: "jsval \<Rightarrow> (jsstring \<times> jsval) list" where
  "spread (JObj kvs) = kvs"
| "spread (JArr xs) = map (\<lambda>(i, x). (decimal i, x)) (enumerate 0 xs)"
| "spread (JStr s) = map (\<lambda>(i, c). (decimal i, JStr [c])) (enumerate 0 s)"
| "spread v = []"


subsection \<open>Sequencing and the conversion to a string\<close>

text \<open>
  The computations of a list run from left to right, and the first that throws ends the
  run: the elements of an array literal, the interpolations of a template literal, the
  calls of the callback of \<^verbatim>\<open>map\<close>.
\<close>

fun inOrder :: "('e + 'a) list \<Rightarrow> 'e + 'a list" where
  "inOrder [] = Inr []"
| "inOrder (r # rs) = andThen r (\<lambda>x. andThen (inOrder rs) (\<lambda>xs. Inr (x # xs)))"

text \<open>
  \<^verbatim>\<open>ToString\<close>, which a template literal applies to each interpolated value and
  \<^verbatim>\<open>join\<close> to each element.  The text of a number is the host's
  \<^verbatim>\<open>Number.prototype.toString\<close>, a parameter.  An array is its elements joined
  with a comma, where undefined and null give the empty text.  An object gives
  \<^verbatim>\<open>[object Object]\<close>, unless it has a property \<^verbatim>\<open>toString\<close> of its own:
  the values here are data, not functions, so that property cannot be called,
  \<^verbatim>\<open>valueOf\<close> returns no primitive, and the conversion is a \<^verbatim>\<open>TypeError\<close>.
\<close>

fun ToString :: "(jsnum \<Rightarrow> jsstring) \<Rightarrow> jsval \<Rightarrow> js_error + jsstring" where
  "ToString Number_toString JUndefined = Inr (lit ''undefined'')"
| "ToString Number_toString JNull = Inr (lit ''null'')"
| "ToString Number_toString (JBool b) = Inr (if b then lit ''true'' else lit ''false'')"
| "ToString Number_toString (JNum n) = Inr (Number_toString n)"
| "ToString Number_toString (JStr s) = Inr s"
| "ToString Number_toString (JArr xs) =
     andThen
       (inOrder (map (\<lambda>x. if x = JUndefined \<or> x = JNull then Inr []
                           else ToString Number_toString x) xs))
       (\<lambda>texts. Inr (join (lit '','') texts))"
| "ToString Number_toString (JObj kvs) =
     (if map_of kvs (lit ''toString'') = None then Inr (lit ''[object Object]'')
      else Inl TypeError)"

text \<open>\<^verbatim>\<open>xs.join(separator)\<close> on an array.\<close>

definition Array_join :: "(jsnum \<Rightarrow> jsstring) \<Rightarrow> jsstring \<Rightarrow> jsval list \<Rightarrow> js_error + jsstring" where
  "Array_join Number_toString separator xs =
     andThen
       (inOrder (map (\<lambda>x. if x = JUndefined \<or> x = JNull then Inr []
                           else ToString Number_toString x) xs))
       (\<lambda>texts. Inr (join separator texts))"

text \<open>
  \<^verbatim>\<open>v.slice(0, n).join(separator)\<close>.  Only an array has both methods: a string has
  \<^verbatim>\<open>slice\<close> and the slice has no \<^verbatim>\<open>join\<close>, and every other value has
  no callable \<^verbatim>\<open>slice\<close>; each of these is a \<^verbatim>\<open>TypeError\<close>.
\<close>

fun slice_join :: "(jsnum \<Rightarrow> jsstring) \<Rightarrow> nat \<Rightarrow> jsstring \<Rightarrow> jsval \<Rightarrow> js_error + jsstring" where
  "slice_join Number_toString n separator (JArr xs) =
     Array_join Number_toString separator (take n xs)"
| "slice_join Number_toString n separator v = Inl TypeError"

text \<open>
  A template literal: its texts and interpolations in order, each interpolation already
  converted, concatenated.
\<close>

definition template :: "(js_error + jsstring) list \<Rightarrow> js_error + jsstring" where
  "template parts = andThen (inOrder parts) (\<lambda>texts. Inr (concat texts))"

text \<open>\<^verbatim>\<open>a || b\<close> on values: \<open>a\<close> when it is truthy, and \<open>b\<close> otherwise.\<close>

definition orElse :: "jsval \<Rightarrow> jsval \<Rightarrow> jsval" where
  "orElse a b = (if truthy a then a else b)"

text \<open>\<^verbatim>\<open>${v.key}\<close> in a template literal.\<close>

definition interpolate :: "(jsnum \<Rightarrow> jsstring) \<Rightarrow> jsval \<Rightarrow> jsstring \<Rightarrow> js_error + jsstring" where
  "interpolate Number_toString v key = andThen (getProp v key) (ToString Number_toString)"
section \<open>The text service: ingredients and recipes\<close>

text \<open>
  The answer of \<^verbatim>\<open>ai.models.generateContent\<close>: its \<^verbatim>\<open>text\<close> is a string,
  or undefined when the service sent no text part.
\<close>

record response =
  response_text :: "jsstring option"

text \<open>
  The first two statements of every \<^verbatim>\<open>try\<close> block,
  \<^verbatim>\<open>const jsonStr = response.text.trim(); const result = JSON.parse(jsonStr);\<close>.
  \<^verbatim>\<open>JSON.parse\<close> is the host's and is a parameter: \<open>None\<close> is its
  \<^verbatim>\<open>SyntaxError\<close>.  Calling \<^verbatim>\<open>trim\<close> on an undefined text is a
  \<^verbatim>\<open>TypeError\<close>.
\<close>

definition parseResponse :: "(jsstring \<Rightarrow> jsval option) \<Rightarrow> response \<Rightarrow> js_error + jsval" where
  "parseResponse JSON_parse response =
     (case response_text response of
        None \<Rightarrow> Inl TypeError
      | Some t \<Rightarrow> (case JSON_parse (trim t) of None \<Rightarrow> Inl SyntaxError | Some result \<Rightarrow> Inr result))"

text \<open>
  \<^verbatim>\<open>identifyIngredients\<close> (lines 8 to 45).  \<open>generateContent\<close> is the call of the
  service for the image, which rejects (\<open>Inl\<close>) or answers; the call stands before the
  \<^verbatim>\<open>try\<close>, so its rejection is the function's.  The result is the console
  output and what the promise settles to.
\<close>

definition identifyIngredients ::
  "(jsstring \<Rightarrow> js_error + response) \<Rightarrow> (jsstring \<Rightarrow> jsval option) \<Rightarrow> jsstring
     \<Rightarrow> console \<times> (js_error + jsval)" where
  "identifyIngredients generateContent JSON_parse base64Image =
     (case generateContent base64Image of
        Inl rejection \<Rightarrow> ([], Inl rejection)
      | Inr response \<Rightarrow>
          (case andThen (parseResponse JSON_parse response) (\<lambda>result.
                andThen (getProp result (lit ''ingredients'')) (\<lambda>ingredients.
                  Inr (if truthy ingredients then ingredients else JArr []))) of
             Inr ingredients \<Rightarrow> ([], Inr ingredients)
           | Inl error \<Rightarrow>
               ([(lit ''Failed to parse ingredients from Gemini response:'',
                  ArgText (response_text response))],
                Inr (JArr []))))"

subsection \<open>The persona table\<close>

text \<open>
  The enum \<^verbatim>\<open>ChefPersonality\<close> of \<^verbatim>\<open>types.ts\<close> has the four members the
  service names; \<open>Unrecognized\<close> stands for any other value a caller passes at run time.
\<close>

datatype ChefPersonality = MICHELIN | BUDGET_MOM | QUICK_CHEF | NORMAL | Unrecognized jsstring

definition getChefPersonalityPrompt :: "ChefPersonality \<Rightarrow> jsstring" where
  \<open>getChefPersonalityPrompt personality =
     (case personality of
        MICHELIN \<Rightarrow> lit ''
        CHEF PERSONALITY: You are Chef Aria, a charismatic 28-year-old Michelin-starred chef with a warm, confident voice and infectious passion for culinary artistry.
        - You speak with elegant enthusiasm, sharing sophisticated techniques in an approachable, inspiring way
        - Your voice is melodic and engaging, like you're personally guiding someone through a masterclass
        - You're generous with professional secrets and love explaining the "why" behind each technique
        - You have a playful side, often adding charming anecdotes about your culinary journey
        - You encourage experimentation while teaching precision, making gourmet cooking feel achievable
        - Your tone is encouraging yet authoritative, with the confidence of someone who's mastered their craft
        
        For personalityTips, include 3-4 sophisticated insights delivered with Chef Aria's warm, professional charm and enthusiasm for teaching.
      ''
      | BUDGET_MOM \<Rightarrow> lit ''
        CHEF PERSONALITY: You are Chef Rosa, a vibrant 32-year-old working mom who's become a master of budget-friendly family cooking with boundless energy and practical wisdom.
        - You speak with genuine warmth and understanding, like a supportive friend sharing hard-earned kitchen wisdom
        - Your voice is upbeat and encouraging, with the confidence of someone who's solved every family meal challenge
        - You're incredibly resourceful and love sharing money-saving discoveries with infectious enthusiasm
        - You have a nurturing, can-do attitude that makes budget cooking feel empowering rather than limiting
        - You speak from real experience, often mentioning how these tricks helped your own family
        - Your tone is friendly, practical, and full of maternal wisdom that makes everyone feel capable
        
        For personalityTips, include 3-4 budget-savvy strategies shared with Chef Rosa's encouraging, family-focused warmth and practical expertise.
      ''
      | QUICK_CHEF \<Rightarrow> lit ''
        CHEF PERSONALITY: You are Chef Luna, an energetic 26-year-old speed-cooking specialist with a bubbly, fast-paced voice and contagious enthusiasm for efficient cooking.
        - You speak with high energy and excitement, like you're genuinely thrilled to share time-saving secrets
        - Your voice is upbeat and motivating, with the enthusiasm of someone who loves solving kitchen efficiency puzzles
        - You're incredibly organized and love sharing clever shortcuts with infectious passion
        - You have a dynamic, can-do attitude that makes fast cooking feel fun and innovative rather than rushed
        - You speak quickly but clearly, mirroring your efficient cooking style
        - Your tone is encouraging and energetic, making time-pressed cooking feel like an exciting challenge
        
        For personalityTips, include 3-4 time-saving strategies delivered with Chef Luna's energetic, efficiency-focused enthusiasm and clever problem-solving approach.
      ''
      | _ \<Rightarrow> lit ''
        CHEF PERSONALITY: You are Chef Priya, a friendly 29-year-old culinary instructor with a warm, approachable voice and genuine love for teaching home cooking.
        - You speak with gentle confidence and encouraging warmth, like a favorite cooking teacher
        - Your voice is clear and reassuring, making cooking feel accessible and enjoyable for everyone
        - You're patient and thorough in explanations, with a natural teaching ability that builds confidence
        - You have a balanced approach, sharing both traditional wisdom and modern conveniences
        - You encourage creativity while providing solid foundations, making cooking feel both safe and adventurous
        - Your tone is supportive and friendly, with the warmth of someone who truly wants to help others succeed
        
        For personalityTips, include 2-3 helpful cooking insights shared with Chef Priya's supportive, teaching-focused warmth and encouragement.
      '')\<close>

subsection \<open>generateRecipes\<close>

text \<open>
  The three optional clauses (lines 149 to 159).  An optional parameter that the caller
  left out is \<open>None\<close>.  \<^verbatim>\<open>a && b ? x : y\<close> takes \<open>x\<close> when both are truthy: a
  string is truthy when it is not empty.
\<close>

definition generateRecipes_exclusionText :: "jsstring option \<Rightarrow> jsstring" where
  \<open>generateRecipes_exclusionText excludeIngredients =
     (case excludeIngredients of
        None \<Rightarrow> []
      | Some e \<Rightarrow>
          if e \<noteq> [] \<and> trim e \<noteq> []
          then lit ''
    IMPORTANT: Do NOT include any of these ingredients or foods in any recipe: '' @ e @ lit ''. Avoid them completely.''
          else [])\<close>

definition generateRecipes_flavorText :: "jsstring option \<Rightarrow> jsstring" where
  \<open>generateRecipes_flavorText flavorProfile =
     (case flavorProfile of
        None \<Rightarrow> []
      | Some f \<Rightarrow>
          if f \<noteq> [] \<and> f \<noteq> lit ''No Preference''
          then lit ''
    FLAVOR FOCUS: Create recipes that emphasize '' @ f @ lit '' flavors and taste profiles.''
          else [])\<close>

definition generateRecipes_styleText :: "jsstring option \<Rightarrow> jsstring" where
  \<open>generateRecipes_styleText recipeStyle =
     (case recipeStyle of
        None \<Rightarrow> []
      | Some s \<Rightarrow>
          if s \<noteq> [] \<and> s \<noteq> lit ''No Preference''
          then lit ''
    RECIPE STYLE: Create recipes in '' @ s @ lit '' cuisine style with authentic flavors and techniques.''
          else [])\<close>

text \<open>The prompt (lines 161 to 198).\<close>

definition generateRecipes_prompt ::
  "jsstring list \<Rightarrow> jsstring \<Rightarrow> jsstring option \<Rightarrow> ChefPersonality \<Rightarrow> jsstring option
     \<Rightarrow> jsstring option \<Rightarrow> jsstring" where
  \<open>generateRecipes_prompt ingredients preference excludeIngredients chefPersonality
       flavorProfile recipeStyle =
     lit ''
    '' @ getChefPersonalityPrompt chefPersonality @
     lit ''
    
    Given the following ingredients: '' @ join (lit '', '') ingredients @
     lit ''.
    And the dietary preference: '' @
     (if preference = lit ''None'' then lit ''no specific preference'' else preference) @
     lit ''.'' @ generateRecipes_exclusionText excludeIngredients @ generateRecipes_flavorText flavorProfile @
     generateRecipes_styleText recipeStyle @
     lit ''
    
    Generate 3 creative recipes that match your chef personality. For each recipe, provide:
    1. A unique recipe name that reflects your cooking style
    2. A complete list of all required ingredients with approximate quantities (including the ones provided)
    3. The total cooking time (e.g., "30 minutes") - IMPORTANT: This should equal prep time + cook time
    4. A difficulty level ('Easy', 'Medium', or 'Hard')
    5. Step-by-step cooking instructions written in your personality style
    6. Accurate calorie count per serving (e.g., "320 calories")
    7. Serving size (e.g., "Serves 4" or "2 portions")
    8. Detailed nutritional information per serving including:
       - Protein content (e.g., "25g")
       - Carbohydrates (e.g., "45g")
       - Fat content (e.g., "12g")
       - Fiber content (e.g., "8g")
       - Sodium content (e.g., "450mg")
    9. Prep time (e.g., "10 minutes") - Time for chopping, measuring, marinating
    10. Cook time (e.g., "20 minutes") - Actual cooking/baking time
    11. Chef personality tips specific to your cooking style (personalityTips array)
    
    CRITICAL TIMING RULES:
    - Prep time + Cook time should approximately equal Total cooking time
    - Keep times realistic (most home recipes are 15-60 minutes total)
    - Don't use extremely long times unless it's a slow-cook recipe that explicitly requires it
    - Be consistent: if total time is "30 minutes", prep + cook should add up to around 30 minutes
    
    Calculate nutritional values based on standard ingredient nutritional data and typical serving sizes.
    Be accurate with calorie calculations considering cooking methods and portion sizes.
    Write instructions and tips that reflect your chef personality throughout.
    
    Respond with ONLY a JSON object that matches the specified schema.
  ''\<close>

text \<open>
  \<^verbatim>\<open>generateRecipes\<close> (lines 141 to 222).  The persona defaults to
  \<^verbatim>\<open>ChefPersonality.NORMAL\<close> when the caller gives none.  \<open>personalityValue\<close> is
  the run-time value of a member of the enum, which \<^verbatim>\<open>types.ts\<close> fixes; the
  stamped recipe is \<^verbatim>\<open>{...recipe, chefPersonality}\<close>, where an existing key keeps
  its place and takes the new value, and a new key goes last.
\<close>

definition generateRecipes ::
  "(jsstring \<Rightarrow> js_error + response) \<Rightarrow> (jsstring \<Rightarrow> jsval option) \<Rightarrow> (ChefPersonality \<Rightarrow> jsval)
     \<Rightarrow> jsstring list \<Rightarrow> jsstring \<Rightarrow> jsstring option \<Rightarrow> ChefPersonality option
     \<Rightarrow> jsstring option \<Rightarrow> jsstring option \<Rightarrow> console \<times> (js_error + jsval list)" where
  "generateRecipes generateContent JSON_parse personalityValue ingredients preference
       excludeIngredients chefPersonalityArg flavorProfile recipeStyle =
     (let chefPersonality = (case chefPersonalityArg of None \<Rightarrow> NORMAL | Some p \<Rightarrow> p);
          prompt = generateRecipes_prompt ingredients preference excludeIngredients
                     chefPersonality flavorProfile recipeStyle
      in case generateContent prompt of
           Inl rejection \<Rightarrow> ([], Inl rejection)
         | Inr response \<Rightarrow>
             (case andThen (parseResponse JSON_parse response) (\<lambda>result.
                   andThen (getProp result (lit ''recipes'')) (\<lambda>recipes.
                     arrayMap
                       (\<lambda>recipe. JObj (AList.update (lit ''chefPersonality'')
                                         (personalityValue chefPersonality) (spread recipe)))
                       recipes)) of
                Inr recipesWithPersonality \<Rightarrow> ([], Inr recipesWithPersonality)
              | Inl error \<Rightarrow>
                  ([(lit ''Failed to parse recipes from Gemini response:'',
                     ArgText (response_text response))],
                   Inl (Error (lit ''Could not parse recipe data from AI.'')))))"

section \<open>The image chain\<close>

subsection \<open>The two phrase tables\<close>

text \<open>
  \<^verbatim>\<open>extractCookingMethod\<close> (lines 225 to 238) and
  \<^verbatim>\<open>determinePresentationStyle\<close> (lines 241 to 257).
  \<^verbatim>\<open>String.prototype.toLowerCase\<close> follows the case tables of Unicode and is a
  parameter.
\<close>

definition extractCookingMethod :: "(jsstring \<Rightarrow> jsstring) \<Rightarrow> jsstring list \<Rightarrow> jsstring" where
  "extractCookingMethod toLowerCase instructions =
     (let instructionsText = toLowerCase (join (lit '' '') instructions) in
      if str_includes instructionsText (lit ''bake'') \<or> str_includes instructionsText (lit ''oven'')
        then lit ''baked to perfection''
      else if str_includes instructionsText (lit ''fry'') \<or> str_includes instructionsText (lit ''pan'')
        then lit ''pan-fried until golden''
      else if str_includes instructionsText (lit ''grill'') then lit ''grilled with char marks''
      else if str_includes instructionsText (lit ''boil'') \<or> str_includes instructionsText (lit ''simmer'')
        then lit ''simmered carefully''
      else if str_includes instructionsText (lit ''steam'') then lit ''steamed delicately''
      else if str_includes instructionsText (lit ''roast'') then lit ''roasted until tender''
      else if str_includes instructionsText (lit ''saut'' @ [0xE9])
        then lit ''saut'' @ [0xE9] @ lit ''ed with herbs''
      else if str_includes instructionsText (lit ''mix'') \<or> str_includes instructionsText (lit ''toss'')
        then lit ''artfully combined''
      else lit ''expertly prepared'')"

definition determinePresentationStyle ::
  "(jsstring \<Rightarrow> jsstring) \<Rightarrow> jsstring \<Rightarrow> jsstring list \<Rightarrow> jsstring" where
  "determinePresentationStyle toLowerCase recipeName ingredients =
     (let name = toLowerCase recipeName;
          ingredientText = toLowerCase (join (lit '' '') ingredients) in
      if str_includes name (lit ''salad'')
        then lit ''fresh greens and colorful vegetables arranged elegantly on a clean white plate''
      else if str_includes name (lit ''soup'') \<or> str_includes name (lit ''broth'')
        then lit ''served in a beautiful ceramic bowl with garnish on a marble surface''
      else if str_includes name (lit ''pasta'') \<or> str_includes name (lit ''noodle'')
        then lit ''perfectly twirled pasta with sauce coating on an elegant plate''
      else if str_includes name (lit ''steak'') \<or> str_includes name (lit ''chicken'')
              \<or> str_includes name (lit ''fish'')
        then lit ''tender protein as the centerpiece with sides on a slate board''
      else if str_includes name (lit ''curry'') \<or> str_includes name (lit ''stew'')
        then lit ''rich, aromatic sauce with visible ingredients in a traditional serving bowl''
      else if str_includes name (lit ''sandwich'') \<or> str_includes name (lit ''burger'')
        then lit ''layered ingredients and toasted bread on parchment paper with a clean background''
      else if str_includes name (lit ''pizza'')
        then lit ''golden crust with melted cheese and toppings on a pizza stone''
      else if str_includes name (lit ''dessert'') \<or> str_includes name (lit ''cake'')
              \<or> str_includes ingredientText (lit ''sugar'')
        then lit ''elegant plating with decorative elements on fine dinnerware''
      else if str_includes ingredientText (lit ''rice'')
        then lit ''fluffy rice with colorful ingredients mixed in a beautiful serving dish''
      else if str_includes name (lit ''smoothie'') \<or> str_includes name (lit ''drink'')
        then lit ''in a stylish glass with garnish against a clean backdrop''
      else lit ''artisanal presentation with modern plating on neutral background'')"

subsection \<open>The host of the image chain\<close>

text \<open>
  What \<^verbatim>\<open>fetch\<close> resolves to: \<^verbatim>\<open>response.ok\<close>, and the body that
  \<^verbatim>\<open>response.blob()\<close> resolves to or the error it rejects with.
\<close>

record http_response =
  ok :: bool
  blob :: "js_error + 8 word list"

text \<open>
  What the placeholder draws on its canvas, in order: the gradient rectangle with its two
  colour stops, and one line of text at a position.
\<close>

datatype draw = FillGradient jsstring jsstring | FillText jsstring int int

text \<open>
  The 2D context of a canvas of 512 by 512: the width it measures for a line in the font
  \<^verbatim>\<open>bold 24px Arial\<close>, and the JPEG data URL \<^verbatim>\<open>canvas.toDataURL\<close> gives for
  what was drawn.
\<close>

record canvas2d =
  measureText :: "jsstring \<Rightarrow> rat"
  toDataURL :: "draw list \<Rightarrow> jsstring"

text \<open>
  The host as the image chain meets it.  The two backends answer a request or reject it;
  the fallback backend and \<^verbatim>\<open>Math.random\<close> may answer differently each time,
  so they take the number of draws made before.  \<open>randomSeed\<close> is
  \<^verbatim>\<open>Math.floor(Math.random() * 1000000)\<close>; \<open>readAsDataURL\<close> is the
  \<^verbatim>\<open>FileReader\<close> of \<^verbatim>\<open>blobToBase64\<close>; \<open>getContext2d\<close> is
  \<^verbatim>\<open>canvas.getContext('2d')\<close>, which is null where no 2D drawing is to be had.
\<close>

record host =
  toLowerCase :: "jsstring \<Rightarrow> jsstring"
  fetchPrimary :: "jsstring \<Rightarrow> js_error + http_response"
  fetchFallback :: "nat \<Rightarrow> jsstring \<Rightarrow> js_error + http_response"
  randomSeed :: "nat \<Rightarrow> nat"
  readAsDataURL :: "8 word list \<Rightarrow> js_error + jsstring"
  getContext2d :: "canvas2d option"

text \<open>The console output so far and the number of draws made.\<close>

record world =
  logged :: console
  draws :: nat

subsection \<open>The placeholder\<close>

text \<open>
  One turn of the loop of lines 363 to 372, on the lines pushed so far and the current
  line; \<open>width\<close> is the measured width of a line.
\<close>

definition wrapWord ::
  "(jsstring \<Rightarrow> rat) \<Rightarrow> jsstring list \<times> jsstring \<Rightarrow> jsstring \<Rightarrow> jsstring list \<times> jsstring" where
  "wrapWord width state word =
     (case state of (lines, currentLine) \<Rightarrow>
        (let testLine = currentLine @ (if currentLine \<noteq> [] then lit '' '' else []) @ word in
         if 400 < width testLine \<and> currentLine \<noteq> [] then (lines @ [currentLine], word)
         else (lines, testLine)))"

text \<open>\<^verbatim>\<open>generatePlaceholderImage\<close> (lines 336 to 398).\<close>

definition generatePlaceholderImage :: "host \<Rightarrow> jsstring \<Rightarrow> js_error + jsstring" where
  \<open>generatePlaceholderImage h recipeName =
     (case getContext2d h of
        Some ctx \<Rightarrow>
          (let words = split 0x20 recipeName;
               lines = (case foldl (wrapWord (measureText ctx)) ([], []) words of
                          (lines, currentLine) \<Rightarrow> lines @ [currentLine]);
               lineHeight = 30;
               startY = 256 - (int (length lines) - 1) * lineHeight div 2
           in Inr (toDataURL ctx
                     (FillGradient (lit ''#ff6b6b'') (lit ''#4ecdc4'') #
                      map (\<lambda>(index, line). FillText line 256 (startY + int index * lineHeight))
                        (enumerate 0 lines))))
      | None \<Rightarrow>
          andThen (btoa (lit ''
        <svg width="512" height="512" xmlns="http://www.w3.org/2000/svg">
            <defs>
                <linearGradient id="grad" x1="0%" y1="0%" x2="100%" y2="100%">
                    <stop offset="0%" style="stop-color:#ff6b6b;stop-opacity:1" />
                    <stop offset="100%" style="stop-color:#4ecdc4;stop-opacity:1" />
                </linearGradient>
            </defs>
            <rect width="512" height="512" fill="url(#grad)" />
            <text x="256" y="256" font-family="Arial" font-size="24" font-weight="bold" text-anchor="middle" fill="white">'' @ recipeName @ lit ''</text>
        </svg>
    ''))
            (\<lambda>encoded. Inr (lit ''data:image/svg+xml;base64,'' @ encoded)))\<close>

subsection \<open>The fallback backend\<close>

text \<open>The recipe as the image chain takes it.\<close>

record recipe =
  recipeName :: jsstring
  ingredients :: "jsstring list"
  instructions :: "jsstring list"

text \<open>
  The \<^verbatim>\<open>try\<close> block of \<^verbatim>\<open>generateRecipeImageFallback\<close> (lines 302 to
  314) at draw number \<open>n\<close>: what it returns or throws, and the number of draws after it.
  \<^verbatim>\<open>Math.random\<close> is drawn once the prompt is encoded.
\<close>

definition fallbackAttempt ::
  "host \<Rightarrow> recipe \<Rightarrow> nat \<Rightarrow> (js_error + jsstring) \<times> nat" where
  \<open>fallbackAttempt h r n =
     (let mainIngredients = join (lit '' '') (take 3 (ingredients r)) in
      case encodeURIComponent
             (lit ''professional food photography '' @ recipeName r @ lit '' with '' @ mainIngredients @ lit '' beautifully plated restaurant quality'') of
        Inl error \<Rightarrow> (Inl error, n)
      | Inr prompt \<Rightarrow>
          (let imageUrl = lit ''https://image.pollinations.ai/prompt/'' @ prompt @ lit ''?width=512&height=512&seed='' @ decimal (randomSeed h n) in
           (andThen (fetchFallback h n imageUrl) (\<lambda>response.
              if \<not> ok response then Inl (Error (lit ''Failed to generate image''))
              else andThen (blob response) (\<lambda>imageBlob. readAsDataURL h imageBlob)),
            Suc n)))\<close>

text \<open>
  \<^verbatim>\<open>generateRecipeImageFallback\<close> (lines 300 to 320): the \<^verbatim>\<open>catch\<close> logs
  the error and returns the placeholder; what the placeholder throws, the function throws.
\<close>

definition generateRecipeImageFallback ::
  "host \<Rightarrow> recipe \<Rightarrow> world \<Rightarrow> (js_error + jsstring) \<times> world" where
  "generateRecipeImageFallback h r w =
     (case fallbackAttempt h r (draws w) of
        (Inr imageBase64, n) \<Rightarrow> (Inr imageBase64, w\<lparr>draws := n\<rparr>)
      | (Inl error, n) \<Rightarrow>
          (generatePlaceholderImage h (recipeName r),
           w\<lparr>logged := logged w @ [(lit ''Error with fallback image generation:'', ArgError error)],
             draws := n\<rparr>))"

subsection \<open>The primary backend\<close>

text \<open>
  The \<^verbatim>\<open>try\<close> block of \<^verbatim>\<open>generateRecipeImage\<close> (lines 261 to 292).  The
  fallback called for a response that is not ok stands inside the block, with
  \<^verbatim>\<open>return await\<close>: what it throws is caught by the \<^verbatim>\<open>catch\<close> of the
  block.
\<close>

definition primaryAttempt ::
  "host \<Rightarrow> recipe \<Rightarrow> world \<Rightarrow> (js_error + jsstring) \<times> world" where
  \<open>primaryAttempt h r w =
     (let mainIngredients = join (lit '', '') (take 5 (ingredients r));
          cookingMethod = extractCookingMethod (toLowerCase h) (instructions r);
          presentationStyle =
            determinePresentationStyle (toLowerCase h) (recipeName r) (ingredients r);
          prompt = lit ''A professional, high-resolution food photography of "'' @ recipeName r @ lit ''" featuring '' @ mainIngredients @
                   lit ''. The dish is '' @ cookingMethod @ lit '' and beautifully plated with '' @ presentationStyle @
                   lit ''. Studio lighting, appetizing, restaurant-quality presentation, garnished appropriately, clean modern styling, natural lighting, culinary art, food styling''
      in case fetchPrimary h prompt of
           Inl error \<Rightarrow> (Inl error, w)
         | Inr response \<Rightarrow>
             if \<not> ok response then generateRecipeImageFallback h r w
             else (andThen (blob response) (\<lambda>imageBlob. readAsDataURL h imageBlob), w))\<close>

text \<open>
  \<^verbatim>\<open>generateRecipeImage\<close> (lines 259 to 297), from an empty console and no draw
  made: the console output, and the image or what the promise rejects with.
\<close>

definition generateRecipeImage :: "host \<Rightarrow> recipe \<Rightarrow> console \<times> (js_error + jsstring)" where
  "generateRecipeImage h r =
     (case primaryAttempt h r \<lparr>logged = [], draws = 0\<rparr> of
        (Inr imageBase64, w) \<Rightarrow> (logged w, Inr imageBase64)
      | (Inl error, w) \<Rightarrow>
          (case generateRecipeImageFallback h r
                  (w\<lparr>logged := logged w @
                       [(lit ''Error generating image with Hugging Face:'', ArgError error)]\<rparr>) of
             (result, w') \<Rightarrow> (logged w', result)))"

section \<open>The cooking schedule\<close>

text \<open>
  The request of \<^verbatim>\<open>generateCookingSchedule\<close>, with the recipes as the caller holds
  them, and the schedule it returns.  The fields of the schedule that are read off the
  parsed answer hold whatever value the answer has there.
\<close>

record CookingPathRequest =
  recipes :: "jsval list"
  skillLevel :: jsstring
  kitchenEquipment :: "jsstring list option"
  preferredServingTime :: "jsstring option"

record CookingSchedule =
  totalTime :: jsval
  servingTime :: jsval
  steps :: jsval
  schedule_recipes :: "jsval list"
  efficiencyTips :: jsval
  timelineSummary :: jsval

text \<open>
  The entry of \<^verbatim>\<open>recipesInfo\<close> for one recipe (the callback of lines 443 to
  460).  A recipe is the value the caller holds, an object that came out of a parsed
  answer, so each property is whatever value is there.  \<^verbatim>\<open>servingAdjustment !== 1\<close>
  holds for every value but the number one.
\<close>

definition recipesInfo_entry :: "(jsnum \<Rightarrow> jsstring) \<Rightarrow> jsval \<Rightarrow> js_error + jsval" where
  \<open>recipesInfo_entry Number_toString recipe =
     andThen (getProp recipe (lit ''servingAdjustment'')) (\<lambda>given.
     let servingAdjustment = orElse given (JNum (Finite 1)) in
     andThen
       (if servingAdjustment \<noteq> JNum (Finite 1)
        then template
               [Inr (lit ''(Serving size adjusted by ''), ToString Number_toString servingAdjustment,
                Inr (lit ''x - ''), interpolate Number_toString recipe (lit ''servingSize''),
                Inr (lit '')'')]
        else Inr []) (\<lambda>adjustmentNote.
     andThen (getProp recipe (lit ''recipeName'')) (\<lambda>name.
     andThen (getProp recipe (lit ''ingredients'')) (\<lambda>ingredientList.
     andThen (getProp recipe (lit ''instructions'')) (\<lambda>instructionList.
     andThen (getProp recipe (lit ''prepTime'')) (\<lambda>prepTime.
     andThen (getProp recipe (lit ''cookTime'')) (\<lambda>cookTime.
     andThen (if truthy cookTime then Inr cookTime
              else getProp recipe (lit ''cookingTime'')) (\<lambda>cookTimeOrCookingTime.
     andThen (getProp recipe (lit ''difficulty'')) (\<lambda>difficulty.
     andThen (getProp recipe (lit ''servingSize'')) (\<lambda>servingSize.
       Inr (JObj [(lit ''name'', name),
                  (lit ''ingredients'', ingredientList),
                  (lit ''instructions'', instructionList),
                  (lit ''prepTime'', orElse prepTime (JStr (lit ''10 minutes''))),
                  (lit ''cookTime'', cookTimeOrCookingTime),
                  (lit ''difficulty'', difficulty),
                  (lit ''servingSize'', orElse servingSize (JStr (lit ''Serves 2-4''))),
                  (lit ''servingAdjustment'', servingAdjustment),
                  (lit ''adjustmentNote'', JStr adjustmentNote)])))))))))))\<close>

text \<open>
  The text of one entry in the prompt (the template of lines 466 to 476).  An index of an
  array is below \<open>2^32\<close>, where the text of a number is its decimal numeral.
\<close>

definition recipeText :: "(jsnum \<Rightarrow> jsstring) \<Rightarrow> nat \<Rightarrow> jsval \<Rightarrow> js_error + jsstring" where
  \<open>recipeText Number_toString index recipe =
     template
       [Inr (lit ''
        Recipe ''), Inr (decimal (index + 1)),
        Inr (lit '': ''), interpolate Number_toString recipe (lit ''name''),
        Inr (lit ''
        - Serving Size: ''), interpolate Number_toString recipe (lit ''servingSize''),
        Inr (lit '' ''), interpolate Number_toString recipe (lit ''adjustmentNote''),
        Inr (lit ''
        - Prep Time: ''), interpolate Number_toString recipe (lit ''prepTime''),
        Inr (lit ''
        - Cook Time: ''), interpolate Number_toString recipe (lit ''cookTime''),
        Inr (lit ''  
        - Total Time: ''), interpolate Number_toString recipe (lit ''cookTime''),
        Inr (lit ''
        - Difficulty: ''), interpolate Number_toString recipe (lit ''difficulty''),
        Inr (lit ''
        - Serving Adjustment Factor: ''), interpolate Number_toString recipe (lit ''servingAdjustment''),
        Inr (lit ''x
        - Key Ingredients: ''),
        andThen (getProp recipe (lit ''ingredients''))
          (slice_join Number_toString 5 (lit '', '')),
        Inr (lit ''
        - Brief Instructions: ''),
        andThen (getProp recipe (lit ''instructions''))
          (slice_join Number_toString 3 (lit '' | '')),
        Inr (lit ''
        '')]\<close>

text \<open>
  The serving size considerations (lines 484 to 496).  \<open>adjusted\<close> is the test
  \<^verbatim>\<open>r.servingAdjustment !== 1\<close> on an entry of \<^verbatim>\<open>recipesInfo\<close>.
\<close>

definition adjusted :: "jsval \<Rightarrow> bool" where
  "adjusted r = (getProp r (lit ''servingAdjustment'') \<noteq> Inr (JNum (Finite 1)))"

definition adjustmentLine :: "(jsnum \<Rightarrow> jsstring) \<Rightarrow> jsval \<Rightarrow> js_error + jsstring" where
  \<open>adjustmentLine Number_toString r =
     template
       [Inr (lit ''- ''), interpolate Number_toString r (lit ''name''),
        Inr (lit '': ''), interpolate Number_toString r (lit ''servingAdjustment''),
        Inr (lit ''x servings (''), interpolate Number_toString r (lit ''servingSize''),
        Inr (lit '')'')]\<close>

definition servingSizeConsiderations ::
  "(jsnum \<Rightarrow> jsstring) \<Rightarrow> jsval list \<Rightarrow> js_error + jsstring" where
  \<open>servingSizeConsiderations Number_toString recipesInfo =
     (if list_ex adjusted recipesInfo
      then template
             [Inr (lit ''
        '' @ [0x26A0] @ [0xFE0F] @ lit '' IMPORTANT: Some recipes have been adjusted for different serving sizes:
        ''),
              andThen (inOrder (map (adjustmentLine Number_toString) (filter adjusted recipesInfo)))
                (\<lambda>lines. Inr (join ([0x0A] @ lit ''        '') lines)),
              Inr (lit ''
        
        When creating the schedule, account for these serving adjustments:
        - Larger serving sizes (>2x) may need extra prep time for chopping/mixing
        - Larger portions may require bigger pots/pans and longer cooking times
        - Multiple smaller batches might be needed if equipment is limited
        - Adjust ingredient prep times proportionally to serving size changes
        - Consider if cooking in batches is more efficient than one large batch
        '')]
      else Inr (lit ''All recipes are at their original serving sizes.''))\<close>

text \<open>
  The prompt (lines 443 to 555).  It is built before the service is called and outside
  the \<^verbatim>\<open>try\<close>, so what it throws is what the function throws.
\<close>

definition generateCookingSchedule_prompt ::
  "(jsnum \<Rightarrow> jsstring) \<Rightarrow> CookingPathRequest \<Rightarrow> js_error + jsstring" where
  \<open>generateCookingSchedule_prompt Number_toString request =
     andThen (inOrder (map (recipesInfo_entry Number_toString) (recipes request)))
       (\<lambda>recipesInfo.
     template
       [Inr (lit ''
        You are a professional kitchen scheduler tasked with creating an optimized cooking timeline for multiple recipes.
        
        RECIPES TO COORDINATE:
        ''),
        andThen
          (inOrder (map (\<lambda>(index, recipe). recipeText Number_toString index recipe)
                      (enumerate 0 recipesInfo)))
          (\<lambda>texts. Inr (join [0x0A] texts)),
        Inr (lit ''
        
        KITCHEN SETUP:
        - Skill Level: ''), Inr (skillLevel request),
        Inr (lit ''
        - Available Equipment: ''),
        Inr (case kitchenEquipment request of
               None \<Rightarrow> lit ''Standard home kitchen''
             | Some equipment \<Rightarrow>
                 if join (lit '', '') equipment \<noteq> [] then join (lit '', '') equipment
                 else lit ''Standard home kitchen''),
        Inr (lit ''
        - Preferred Serving Time: ''),
        Inr (case preferredServingTime request of
               None \<Rightarrow> lit ''ASAP''
             | Some time \<Rightarrow> if time \<noteq> [] then time else lit ''ASAP''),
        Inr (lit ''
        
        SERVING SIZE CONSIDERATIONS:
        ''), servingSizeConsiderations Number_toString recipesInfo,
        Inr (lit ''
        
        CREATE AN OPTIMIZED COOKING SCHEDULE that:
        1. Minimizes total cooking time through parallel preparation
        2. Reduces kitchen downtime (e.g., start marinating while prep continues)
        3. Coordinates multiple dishes to finish simultaneously or in logical sequence
        4. Considers equipment limitations (only one oven, limited stovetop space)
        5. Accounts for skill level and provides appropriate guidance
        6. RESPECTS SERVING SIZE ADJUSTMENTS: Factor in extra prep/cook time for larger portions
        7. USES REALISTIC TIMING: If a recipe says prep 15min + cook 20min, don't schedule it for 4 hours
        8. RESPECTS PREFERRED SERVING TIME: If user wants food ready at specific time, calculate backwards
        
        TIMING CALCULATION RULES:
        - Start with the user's preferred serving time and work backwards
        - Account for actual prep and cook times from each recipe
        - Add buffer time for coordination (5-10 minutes)
        - For recipes with serving adjustments >1.5x, add 20-30% more prep time
        - For recipes with serving adjustments <0.8x, may reduce prep time by 10-15%
        - Total schedule time should be reasonable (usually 30 minutes to 2 hours max)
        - If no serving time specified, assume user wants to start cooking now
        6. Uses realistic timing - no steps shorter than 2 minutes, most steps 5-15 minutes
        7. Provides clear, actionable descriptions for each step
        
        TIMING GUIDELINES:
        - Prep steps: typically 5-15 minutes each
        - Active cooking: 3-20 minutes depending on technique
        - Passive cooking: 10-60 minutes (baking, simmering, etc.)
        - Start times should be multiples of 5 minutes for clarity
        - Build in buffer time between critical steps
        
        STEP TYPES:
        - "prep": Chopping, measuring, marinating (can be done in parallel)
        - "active": Requires constant attention (stirring, saut'' @ [0xE9] @ lit ''ing)
        - "passive": Hands-off cooking (baking, simmering, marinating)
        
        PRIORITY LEVELS:
        - "high": Critical timing, cannot be delayed
        - "medium": Some flexibility in timing
        - "low": Can be done whenever convenient
        
        For each step, provide:
        - Unique ID (step1, step2, etc.)
        - Recipe ID (recipe1, recipe2, etc.)
        - Clear, actionable step description
        - Start time in minutes from cooking start (0 = begin immediately)
        - Duration in minutes
        - Step type and priority
        - Required equipment if specific
        - Pro tips for efficiency
        
        Calculate realistic timing based on:
        - Prep work that can be done simultaneously
        - Cooking processes that can overlap
        - Rest/wait times that allow other tasks
        - Realistic multitasking for the given skill level
        
        Provide efficiency tips and a summary timeline that explains the cooking flow.
        
        Respond with ONLY a JSON object that matches the specified schema.
    '')])\<close>

text \<open>
  \<^verbatim>\<open>generateCookingSchedule\<close> (lines 442 to 581).  \<open>generateContent\<close> is the
  call of the service for the prompt.
\<close>

definition generateCookingSchedule ::
  "(jsstring \<Rightarrow> js_error + response) \<Rightarrow> (jsstring \<Rightarrow> jsval option) \<Rightarrow> (jsnum \<Rightarrow> jsstring)
     \<Rightarrow> CookingPathRequest \<Rightarrow> console \<times> (js_error + CookingSchedule)" where
  "generateCookingSchedule generateContent JSON_parse Number_toString request =
     (case generateCookingSchedule_prompt Number_toString request of
        Inl error \<Rightarrow> ([], Inl error)
      | Inr prompt \<Rightarrow>
     (case generateContent prompt of
        Inl rejection \<Rightarrow> ([], Inl rejection)
      | Inr response \<Rightarrow>
          (case andThen (parseResponse JSON_parse response) (\<lambda>result.
                andThen (getProp result (lit ''totalTime'')) (\<lambda>totalTime'.
                andThen (getProp result (lit ''servingTime'')) (\<lambda>servingTime'.
                andThen (getProp result (lit ''steps'')) (\<lambda>steps'.
                andThen (getProp result (lit ''efficiencyTips'')) (\<lambda>efficiencyTips'.
                andThen (getProp result (lit ''timelineSummary'')) (\<lambda>timelineSummary'.
                  Inr \<lparr>totalTime = totalTime', servingTime = servingTime', steps = steps',
                       schedule_recipes = recipes request,
                       efficiencyTips = efficiencyTips',
                       timelineSummary = timelineSummary'\<rparr>)))))) of
             Inr schedule \<Rightarrow> ([], Inr schedule)
           | Inl error \<Rightarrow>
               ([(lit ''Failed to parse cooking schedule from Gemini response:'',
                  ArgText (response_text response))],
                Inl (Error (lit ''Could not parse cooking schedule data from AI.''))))))"

section \<open>Recipe reinvention\<close>

text \<open>
  The three optional clauses of \<^verbatim>\<open>reinventRecipe\<close> (lines 585 to 595).
  \<open>FlavorProfile_NONE\<close> and \<open>RecipeStyle_NONE\<close> are the members
  \<^verbatim>\<open>FlavorProfile.NONE\<close> and \<^verbatim>\<open>RecipeStyle.NONE\<close> of the enums of
  \<^verbatim>\<open>types.ts\<close>.
\<close>

definition reinventRecipe_exclusionText :: "jsstring option \<Rightarrow> jsstring" where
  \<open>reinventRecipe_exclusionText excludeIngredients =
     (case excludeIngredients of
        None \<Rightarrow> []
      | Some e \<Rightarrow>
          if e \<noteq> [] \<and> trim e \<noteq> []
          then lit ''
    IMPORTANT: Do NOT include any of these ingredients or foods in any recipe: '' @ e @ lit ''. Avoid them completely.''
          else [])\<close>

definition reinventRecipe_flavorText :: "jsstring \<Rightarrow> jsstring option \<Rightarrow> jsstring" where
  \<open>reinventRecipe_flavorText FlavorProfile_NONE flavorProfile =
     (case flavorProfile of
        None \<Rightarrow> []
      | Some f \<Rightarrow>
          if f \<noteq> [] \<and> f \<noteq> FlavorProfile_NONE
          then lit ''
    FLAVOR FOCUS: Create reinvented versions that emphasize '' @ f @ lit '' flavors and taste profiles.''
          else [])\<close>

definition reinventRecipe_styleText :: "jsstring \<Rightarrow> jsstring option \<Rightarrow> jsstring" where
  \<open>reinventRecipe_styleText RecipeStyle_NONE recipeStyle =
     (case recipeStyle of
        None \<Rightarrow> []
      | Some s \<Rightarrow>
          if s \<noteq> [] \<and> s \<noteq> RecipeStyle_NONE
          then lit ''
    RECIPE STYLE: Create reinvented versions in '' @ s @ lit '' cuisine style with authentic flavors and techniques.''
          else [])\<close>

text \<open>The request of \<^verbatim>\<open>reinventRecipe\<close>, with the fields the function reads.\<close>

record RecipeReinventionRequest =
  dishName :: jsstring
  chefPersonality :: ChefPersonality
  dietaryPreference :: "jsstring option"
  excludeIngredients :: "jsstring option"
  flavorProfile :: "jsstring option"
  recipeStyle :: "jsstring option"

text \<open>The prompt (lines 584 to 636).\<close>

definition reinventRecipe_prompt ::
  "jsstring \<Rightarrow> jsstring \<Rightarrow> RecipeReinventionRequest \<Rightarrow> jsstring" where
  \<open>reinventRecipe_prompt FlavorProfile_NONE RecipeStyle_NONE request =
     lit ''
        '' @ getChefPersonalityPrompt (chefPersonality request) @
     lit ''
        
        RECIPE REINVENTION CHALLENGE: Take the classic dish "'' @ dishName request @
     lit ''" and completely reinvent it with your chef personality!
        
        Your task is to create 3 innovative versions of "'' @ dishName request @
     lit ''" that:
        1. Keep the essence and recognizable elements of the original dish
        2. Add your unique chef personality twist and creativity
        3. Use modern techniques, interesting ingredient swaps, or presentation styles
        4. Maintain the spirit of "'' @ dishName request @
     lit ''" while making it distinctly YOUR creation
        
        Dietary preference: '' @
     (case dietaryPreference request of
        None \<Rightarrow> lit ''no specific preference''
      | Some d \<Rightarrow> if d \<noteq> [] then d else lit ''no specific preference'') @
     reinventRecipe_exclusionText (excludeIngredients request) @
     reinventRecipe_flavorText FlavorProfile_NONE (flavorProfile request) @
     reinventRecipe_styleText RecipeStyle_NONE (recipeStyle request) @
     lit ''
        
        For each reinvented recipe, provide:
        1. A creative new name that shows it's an innovative version of "'' @ dishName request @
     lit ''"
        2. Complete ingredient list with quantities (reinvented but recognizable)
        3. Total cooking time (realistic: prep time + cook time)
        4. Difficulty level ('Easy', 'Medium', or 'Hard')
        5. Step-by-step instructions that reflect your chef personality
        6. Accurate calorie count per serving
        7. Serving size information
        8. Detailed nutritional breakdown per serving
        9. Prep time and cook time that add up to total time
        10. Personality tips that explain your reinvention approach
        
        REINVENTION IDEAS for different chef personalities:
        - Michelin Chef: Elevate with premium ingredients, advanced techniques, refined presentation
        - Budget Mom: Make it family-friendly, cost-effective, kid-approved with smart substitutions
        - Quick Chef: Speed it up with shortcuts, one-pot methods, meal prep friendly versions
        - Normal Chef: Balance tradition with modern touches, accessible improvements
        
        Examples of good reinventions:
        - "Maggi" '' @ [0x2192] @ lit '' Gourmet Truffle Ramen, Veggie-Packed Family Noodles, 5-Minute Protein Bowl
        - "Fish Finger" '' @ [0x2192] @ lit '' Herb-Crusted Fish Goujons, Baked Cod Nuggets, Spicy Fish Tacos
        - "Chicken Dum Biryani" '' @ [0x2192] @ lit '' Saffron Chicken Rice Bowl, Quick Chicken Biryani Skillet, Layered Biryani Casserole
        
        Make each version distinct while honoring the original dish. Be creative but practical!
        
        Respond with ONLY a JSON object that matches the specified schema.
    ''\<close>

text \<open>\<^verbatim>\<open>reinventRecipe\<close> (lines 583 to 660).\<close>

definition reinventRecipe ::
  "(jsstring \<Rightarrow> js_error + response) \<Rightarrow> (jsstring \<Rightarrow> jsval option) \<Rightarrow> (ChefPersonality \<Rightarrow> jsval)
     \<Rightarrow> jsstring \<Rightarrow> jsstring \<Rightarrow> RecipeReinventionRequest
     \<Rightarrow> console \<times> (js_error + jsval list)" where
  "reinventRecipe generateContent JSON_parse personalityValue FlavorProfile_NONE
       RecipeStyle_NONE request =
     (case generateContent (reinventRecipe_prompt FlavorProfile_NONE RecipeStyle_NONE request) of
        Inl rejection \<Rightarrow> ([], Inl rejection)
      | Inr response \<Rightarrow>
          (case andThen (parseResponse JSON_parse response) (\<lambda>result.
                andThen (getProp result (lit ''recipes'')) (\<lambda>recipes.
                  arrayMap
                    (\<lambda>recipe. JObj (AList.update (lit ''chefPersonality'')
                                      (personalityValue (chefPersonality request))
                                      (spread recipe)))
                    recipes)) of
             Inr recipesWithPersonality \<Rightarrow> ([], Inr recipesWithPersonality)
           | Inl error \<Rightarrow>
               ([(lit ''Failed to parse reinvented recipes from Gemini response:'',
                  ArgText (response_text response))],
                Inl (Error (lit ''Could not parse reinvented recipe data from AI.'')))))"

section \<open>The specification's tables\<close>

text \<open>
  The cooking-method table as the specification words it, an ordered list of keyword sets
  with their phrases that is scanned for the first entry one of whose keywords occurs in
  the text, with the keyword \<^verbatim>\<open>oven\<close> of the code in the first entry.
\<close>

definition cookingMethodTable :: "(jsstring list \<times> jsstring) list" where
  "cookingMethodTable =
     [([lit ''bake'', lit ''oven''], lit ''baked to perfection''),
      ([lit ''fry'', lit ''pan''], lit ''pan-fried until golden''),
      ([lit ''grill''], lit ''grilled with char marks''),
      ([lit ''boil'', lit ''simmer''], lit ''simmered carefully''),
      ([lit ''steam''], lit ''steamed delicately''),
      ([lit ''roast''], lit ''roasted until tender''),
      ([lit ''saut'' @ [0xE9]], lit ''saut'' @ [0xE9] @ lit ''ed with herbs''),
      ([lit ''mix'', lit ''toss''], lit ''artfully combined'')]"

definition mentionsAny :: "jsstring \<Rightarrow> jsstring list \<Rightarrow> bool" where
  "mentionsAny t keywords = list_ex (str_includes t) keywords"

fun firstMatch :: "(jsstring list \<times> jsstring) list \<Rightarrow> jsstring \<Rightarrow> jsstring \<Rightarrow> jsstring" where
  "firstMatch [] fallback t = fallback"
| "firstMatch ((keywords, phrase) # entries) fallback t =
     (if mentionsAny t keywords then phrase else firstMatch entries fallback t)"

text \<open>The keywords the specification lists for the table.\<close>

definition listedKeywords :: "jsstring list" where
  "listedKeywords =
     [lit ''bake'', lit ''fry'', lit ''pan'', lit ''grill'', lit ''boil'', lit ''simmer'',
      lit ''steam'', lit ''roast'', lit ''saut'' @ [0xE9], lit ''mix'', lit ''toss'']"

text \<open>The clause an exclusion text, a flavour and a style add to the two prompts.\<close>

definition exclusionClause :: "jsstring \<Rightarrow> jsstring" where
  \<open>exclusionClause e = lit ''
    IMPORTANT: Do NOT include any of these ingredients or foods in any recipe: '' @ e @ lit ''. Avoid them completely.''\<close>

definition flavorClause :: "jsstring \<Rightarrow> jsstring" where
  \<open>flavorClause f = lit ''
    FLAVOR FOCUS: Create recipes that emphasize '' @ f @ lit '' flavors and taste profiles.''\<close>

definition styleClause :: "jsstring \<Rightarrow> jsstring" where
  \<open>styleClause s = lit ''
    RECIPE STYLE: Create recipes in '' @ s @ lit '' cuisine style with authentic flavors and techniques.''\<close>

definition reinventFlavorClause :: "jsstring \<Rightarrow> jsstring" where
  \<open>reinventFlavorClause f = lit ''
    FLAVOR FOCUS: Create reinvented versions that emphasize '' @ f @ lit '' flavors and taste profiles.''\<close>

definition reinventStyleClause :: "jsstring \<Rightarrow> jsstring" where
  \<open>reinventStyleClause s = lit ''
    RECIPE STYLE: Create reinvented versions in '' @ s @ lit '' cuisine style with authentic flavors and techniques.''\<close>

text \<open>A parsed answer has the key as an own property.\<close>

definition hasKey :: "jsval \<Rightarrow> jsstring \<Rightarrow> bool" where
  "hasKey v k = (case v of JObj kvs \<Rightarrow> map_of kvs k \<noteq> None | _ \<Rightarrow> False)"

section \<open>Hosts and answers of the examples\<close>

text \<open>
  \<^verbatim>\<open>toLowerCase\<close> on the code units below U+0100, where the upper-case letters
  are A to Z and U+00C0 to U+00DE without the multiplication sign; the examples hold no
  letter beyond.
\<close>

definition latin1_toLowerCase :: "jsstring \<Rightarrow> jsstring" where
  "latin1_toLowerCase s =
     map (\<lambda>c. if (0x41 \<le> c \<and> c \<le> 0x5A) \<or> (0xC0 \<le> c \<and> c \<le> 0xDE \<and> c \<noteq> 0xD7)
               then c + 0x20 else c) s"

text \<open>
  \<^verbatim>\<open>JSON.parse\<close> on the texts of the examples, each with the value it parses to;
  every other text of the examples is no JSON.
\<close>

definition example_JSON_parse :: "jsstring \<Rightarrow> jsval option" where
  \<open>example_JSON_parse =
     map_of
       [(lit ''{}'', JObj []),
        (lit ''null'', JNull),
        (lit ''{"ingredients":null}'', JObj [(lit ''ingredients'', JNull)]),
        (lit ''{"ingredients":["egg","rice"]}'',
           JObj [(lit ''ingredients'', JArr [JStr (lit ''egg''), JStr (lit ''rice'')])]),
        (lit ''{"recipes":[{"recipeName":"Soup"},{"chefPersonality":"pirate","recipeName":"Stew"}]}'',
           JObj [(lit ''recipes'',
                  JArr [JObj [(lit ''recipeName'', JStr (lit ''Soup''))],
                        JObj [(lit ''chefPersonality'', JStr (lit ''pirate'')),
                              (lit ''recipeName'', JStr (lit ''Stew''))]])]),
        (lit ''{"totalTime":45,"recipes":[{"recipeName":"Soup","estimatedFinishTime":"18:30"}]}'',
           JObj [(lit ''totalTime'', JNum (Finite 45)),
                 (lit ''recipes'',
                  JArr [JObj [(lit ''recipeName'', JStr (lit ''Soup'')),
                              (lit ''estimatedFinishTime'', JStr (lit ''18:30''))]])]),
        (lit ''{"totalTime":45,"recipes":[]}'',
           JObj [(lit ''totalTime'', JNum (Finite 45)), (lit ''recipes'', JArr [])])]\<close>

text \<open>A service that answers every request with the same text.\<close>

definition answering :: "jsstring \<Rightarrow> 'a \<Rightarrow> js_error + response" where
  "answering t request = Inr \<lparr>response_text = Some t\<rparr>"

text \<open>Run-time values for the members of \<^verbatim>\<open>ChefPersonality\<close>.\<close>

definition example_personalityValue :: "ChefPersonality \<Rightarrow> jsval" where
  "example_personalityValue p =
     JStr (case p of MICHELIN \<Rightarrow> lit ''michelin'' | BUDGET_MOM \<Rightarrow> lit ''budget_mom''
           | QUICK_CHEF \<Rightarrow> lit ''quick_chef'' | NORMAL \<Rightarrow> lit ''normal''
           | Unrecognized s \<Rightarrow> s)"

text \<open>
  A host where the primary backend answers with a status that is not ok, the fallback
  backend cannot be reached, and a canvas has no 2D context.
\<close>

definition offline_host :: host where
  "offline_host =
     \<lparr>toLowerCase = latin1_toLowerCase,
      fetchPrimary = (\<lambda>prompt. Inr \<lparr>ok = False, blob = Inr []\<rparr>),
      fetchFallback = (\<lambda>n imageUrl. Inl TypeError),
      randomSeed = (\<lambda>n. 424242),
      readAsDataURL = (\<lambda>imageBlob. Inl ProgressEvent),
      getContext2d = None\<rparr>"

text \<open>A recipe whose name has a letter beyond U+00FF (U+1EDF, an o with horn and hook).\<close>

definition pho :: recipe where
  "pho = \<lparr>recipeName = lit ''Ph'' @ [0x1EDF], ingredients = [lit ''rice noodles''],
           instructions = [lit ''Simmer the broth'']\<rparr>"

text \<open>
  A host where the primary backend cannot be reached and the fallback backend answers
  every request with the same three bytes, which the reader turns into a data URL.
\<close>

definition fallback_only_host :: host where
  "fallback_only_host =
     \<lparr>toLowerCase = latin1_toLowerCase,
      fetchPrimary = (\<lambda>prompt. Inl TypeError),
      fetchFallback = (\<lambda>n imageUrl. Inr \<lparr>ok = True, blob = Inr [0xFF, 0xD8, 0xFF]\<rparr>),
      randomSeed = (\<lambda>n. 424242),
      readAsDataURL = (\<lambda>imageBlob. Inr (lit ''data:image/jpeg;base64,/9j/'')),
      getContext2d = None\<rparr>"

text \<open>
  A 2D context that measures twelve units for every code unit and gives the same data URL
  for every drawing, and the offline host with that context.
\<close>

definition example_canvas :: canvas2d where
  "example_canvas =
     \<lparr>measureText = (\<lambda>line. 12 * of_nat (length line)),
      toDataURL = (\<lambda>drawing. lit ''data:image/jpeg;base64,/9j/'')\<rparr>"

definition offline_canvas_host :: host where
  "offline_canvas_host = offline_host\<lparr>getContext2d := Some example_canvas\<rparr>"

text \<open>A recipe with a name in ASCII.\<close>

definition leek_soup :: recipe where
  "leek_soup = \<lparr>recipeName = lit ''Leek soup'', ingredients = [lit ''leek'', lit ''potato''],
                 instructions = [lit ''Simmer the leeks'']\<rparr>"


text \<open>
  \<^verbatim>\<open>Number.prototype.toString\<close> on the integers of magnitude below \<open>10^21\<close>, which
  the host prints as decimal numerals, and on the three values that are no rationals.  The
  examples convert no other number.
\<close>

definition integer_toString :: "jsnum \<Rightarrow> jsstring" where
  "integer_toString n =
     (case n of
        Finite r \<Rightarrow> if r < 0 then lit ''-'' @ decimal (nat (- \<lfloor>r\<rfloor>)) else decimal (nat \<lfloor>r\<rfloor>)
      | PosInfinity \<Rightarrow> lit ''Infinity''
      | NegInfinity \<Rightarrow> lit ''-Infinity''
      | NaN \<Rightarrow> lit ''NaN'')"

text \<open>
  A recipe as \<^verbatim>\<open>generateRecipes\<close> returns it, the same recipe with the servings
  doubled, and a value that has a name and no lists.
\<close>

definition soup :: jsval where
  "soup =
     JObj [(lit ''recipeName'', JStr (lit ''Soup'')),
           (lit ''ingredients'', JArr [JStr (lit ''leek''), JStr (lit ''potato'')]),
           (lit ''cookingTime'', JStr (lit ''40 minutes'')),
           (lit ''difficulty'', JStr (lit ''Easy'')),
           (lit ''instructions'', JArr [JStr (lit ''Chop''), JStr (lit ''Simmer'')]),
           (lit ''servingSize'', JStr (lit ''Serves 2''))]"

definition double_soup :: jsval where
  "double_soup = JObj (AList.update (lit ''servingAdjustment'') (JNum (Finite 2)) (spread soup))"

definition soup_without_lists :: jsval where
  "soup_without_lists =
     JObj [(lit ''recipeName'', JStr (lit ''Soup'')), (lit ''cookingTime'', JStr (lit ''40 minutes''))]"

definition dinner :: "jsval list \<Rightarrow> CookingPathRequest" where
  "dinner rs =
     \<lparr>recipes = rs, skillLevel = lit ''beginner'', kitchenEquipment = None,
      preferredServingTime = None\<rparr>"
section \<open>Properties\<close>

subsection \<open>Auxiliary facts\<close>

lemma andThen_Inl: "andThen (Inl e) f = Inl e"
  by (simp add: andThen_def)

lemma andThen_Inr: "andThen (Inr x) f = f x"
  by (simp add: andThen_def)

lemma str_includes_sublist: "str_includes s p \<longleftrightarrow> sublist p s"
  by (induction s) (auto simp: sublist_Cons_right)

lemma parseResponse_None:
  "response_text response = Some t \<Longrightarrow> JSON_parse (trim t) = None
     \<Longrightarrow> parseResponse JSON_parse response = Inl SyntaxError"
  by (simp add: parseResponse_def)

lemma parseResponse_Some:
  "response_text response = Some t \<Longrightarrow> JSON_parse (trim t) = Some result
     \<Longrightarrow> parseResponse JSON_parse response = Inr result"
  by (simp add: parseResponse_def)

lemma arrayMap_Inr: "arrayMap f v = Inr out \<longleftrightarrow> (\<exists>xs. v = JArr xs \<and> out = map f xs)"
  by (cases v) auto

lemma missing_key_no_map:
  "\<not> hasKey result k \<Longrightarrow> andThen (getProp result k) (arrayMap f) = Inl TypeError"
  by (cases result) (auto simp: hasKey_def andThen_def)

lemma stamped_persona:
  "getProp (JObj (AList.update k v al)) k = Inr v"
  by (simp add: update_conv')

lemma unat_of_char: "unat (of_char c :: 16 word) = of_char c"
proof -
  have "(of_char c :: nat) < 2 ^ LENGTH(16)"
    by (rule less_le_trans [OF nat_of_char_less_256]) simp
  then have "unat (of_nat (of_char c) :: 16 word) = of_char c"
    by (simp add: unat_of_nat)
  then show ?thesis
    by (simp add: of_nat_of_char)
qed

lemma of_char_word_eq_iff: "(of_char c :: 16 word) = of_char d \<longleftrightarrow> c = d"
proof
  assume "(of_char c :: 16 word) = of_char d"
  then have "unat (of_char c :: 16 word) = unat (of_char d :: 16 word)"
    by simp
  then show "c = d"
    by (simp add: unat_of_char)
qed simp

lemma lit_eq_iff: "lit a = lit b \<longleftrightarrow> a = b"
proof -
  have "inj (of_char :: char \<Rightarrow> 16 word)"
    by (rule injI) (simp add: of_char_word_eq_iff)
  then show ?thesis
    by (simp add: lit_def inj_map_eq_map)
qed

lemma length_lit: "length (lit a) = length a"
  by (simp add: lit_def)

lemma lit_Nil: "lit a = [] \<longleftrightarrow> a = []" "[] = lit a \<longleftrightarrow> a = []"
  by (auto simp: lit_def)

lemma schedule_keys_differ:
  "lit ''totalTime'' \<noteq> lit ''recipes''" "lit ''servingTime'' \<noteq> lit ''recipes''"
  "lit ''steps'' \<noteq> lit ''recipes''" "lit ''efficiencyTips'' \<noteq> lit ''recipes''"
  "lit ''timelineSummary'' \<noteq> lit ''recipes''"
  by (simp_all add: lit_eq_iff)

subsection \<open>The persona table\<close>

lemma persona_headers:
  \<open>prefix (lit ''
        CHEF PERSONALITY: You are Chef Aria,'') (getChefPersonalityPrompt MICHELIN)\<close>
  \<open>prefix (lit ''
        CHEF PERSONALITY: You are Chef Rosa,'') (getChefPersonalityPrompt BUDGET_MOM)\<close>
  \<open>prefix (lit ''
        CHEF PERSONALITY: You are Chef Luna,'') (getChefPersonalityPrompt QUICK_CHEF)\<close>
  \<open>prefix (lit ''
        CHEF PERSONALITY: You are Chef Priya,'') (getChefPersonalityPrompt NORMAL)\<close>
  by (simp_all add: getChefPersonalityPrompt_def lit_def)

lemma persona_default:
  "getChefPersonalityPrompt (Unrecognized s) = getChefPersonalityPrompt NORMAL"
  by (simp add: getChefPersonalityPrompt_def)

lemma persona_distinct:
  "distinct (map getChefPersonalityPrompt [MICHELIN, BUDGET_MOM, QUICK_CHEF, NORMAL])"
  by (simp add: getChefPersonalityPrompt_def lit_def)

lemma block_of_Aria:
  \<open>getChefPersonalityPrompt MICHELIN =
     join [0x0A]
     [[],
      lit ''        CHEF PERSONALITY: You are Chef Aria, a charismatic 28-year-old Michelin-starred chef with a warm, confident voice and infectious passion for culinary artistry.'',
      lit ''        - You speak with elegant enthusiasm, sharing sophisticated techniques in an approachable, inspiring way'',
      lit ''        - Your voice is melodic and engaging, like you're personally guiding someone through a masterclass'',
      lit ''        - You're generous with professional secrets and love explaining the "why" behind each technique'',
      lit ''        - You have a playful side, often adding charming anecdotes about your culinary journey'',
      lit ''        - You encourage experimentation while teaching precision, making gourmet cooking feel achievable'',
      lit ''        - Your tone is encouraging yet authoritative, with the confidence of someone who's mastered their craft'',
      lit ''        '',
      lit ''        For personalityTips, include 3-4 sophisticated insights delivered with Chef Aria's warm, professional charm and enthusiasm for teaching.'',
      lit ''      '']\<close>
  by (simp add: getChefPersonalityPrompt_def lit_def)

lemma block_of_Rosa:
  \<open>getChefPersonalityPrompt BUDGET_MOM =
     join [0x0A]
     [[],
      lit ''        CHEF PERSONALITY: You are Chef Rosa, a vibrant 32-year-old working mom who's become a master of budget-friendly family cooking with boundless energy and practical wisdom.'',
      lit ''        - You speak with genuine warmth and understanding, like a supportive friend sharing hard-earned kitchen wisdom'',
      lit ''        - Your voice is upbeat and encouraging, with the confidence of someone who's solved every family meal challenge'',
      lit ''        - You're incredibly resourceful and love sharing money-saving discoveries with infectious enthusiasm'',
      lit ''        - You have a nurturing, can-do attitude that makes budget cooking feel empowering rather than limiting'',
      lit ''        - You speak from real experience, often mentioning how these tricks helped your own family'',
      lit ''        - Your tone is friendly, practical, and full of maternal wisdom that makes everyone feel capable'',
      lit ''        '',
      lit ''        For personalityTips, include 3-4 budget-savvy strategies shared with Chef Rosa's encouraging, family-focused warmth and practical expertise.'',
      lit ''      '']\<close>
  by (simp add: getChefPersonalityPrompt_def lit_def)

lemma block_of_Luna:
  \<open>getChefPersonalityPrompt QUICK_CHEF =
     join [0x0A]
     [[],
      lit ''        CHEF PERSONALITY: You are Chef Luna, an energetic 26-year-old speed-cooking specialist with a bubbly, fast-paced voice and contagious enthusiasm for efficient cooking.'',
      lit ''        - You speak with high energy and excitement, like you're genuinely thrilled to share time-saving secrets'',
      lit ''        - Your voice is upbeat and motivating, with the enthusiasm of someone who loves solving kitchen efficiency puzzles'',
      lit ''        - You're incredibly organized and love sharing clever shortcuts with infectious passion'',
      lit ''        - You have a dynamic, can-do attitude that makes fast cooking feel fun and innovative rather than rushed'',
      lit ''        - You speak quickly but clearly, mirroring your efficient cooking style'',
      lit ''        - Your tone is encouraging and energetic, making time-pressed cooking feel like an exciting challenge'',
      lit ''        '',
      lit ''        For personalityTips, include 3-4 time-saving strategies delivered with Chef Luna's energetic, efficiency-focused enthusiasm and clever problem-solving approach.'',
      lit ''      '']\<close>
  by (simp add: getChefPersonalityPrompt_def lit_def)

lemma block_of_Priya:
  \<open>getChefPersonalityPrompt NORMAL =
     join [0x0A]
     [[],
      lit ''        CHEF PERSONALITY: You are Chef Priya, a friendly 29-year-old culinary instructor with a warm, approachable voice and genuine love for teaching home cooking.'',
      lit ''        - You speak with gentle confidence and encouraging warmth, like a favorite cooking teacher'',
      lit ''        - Your voice is clear and reassuring, making cooking feel accessible and enjoyable for everyone'',
      lit ''        - You're patient and thorough in explanations, with a natural teaching ability that builds confidence'',
      lit ''        - You have a balanced approach, sharing both traditional wisdom and modern conveniences'',
      lit ''        - You encourage creativity while providing solid foundations, making cooking feel both safe and adventurous'',
      lit ''        - Your tone is supportive and friendly, with the warmth of someone who truly wants to help others succeed'',
      lit ''        '',
      lit ''        For personalityTips, include 2-3 helpful cooking insights shared with Chef Priya's supportive, teaching-focused warmth and encouragement.'',
      lit ''      '']\<close>
  by (simp add: getChefPersonalityPrompt_def lit_def)

text \<open>
  Claim C6.  The persona lookup is a total function that returns a text for every id.
  Each of the four personas of the enum has a block of its own, given here line by line:
  the line that names the chef (Aria for the Michelin persona, Rosa for the budget
  persona, Luna for the quick persona, Priya for the normal one), the six lines on the
  voice of the chef, and the line on the tips to give.  The four blocks differ, and an id
  that is none of the four gets the block of the normal persona.
\<close>

theorem persona_lookup_total_with_default:
  \<open>getChefPersonalityPrompt MICHELIN =
     join [0x0A]
     [[],
      lit ''        CHEF PERSONALITY: You are Chef Aria, a charismatic 28-year-old Michelin-starred chef with a warm, confident voice and infectious passion for culinary artistry.'',
      lit ''        - You speak with elegant enthusiasm, sharing sophisticated techniques in an approachable, inspiring way'',
      lit ''        - Your voice is melodic and engaging, like you're personally guiding someone through a masterclass'',
      lit ''        - You're generous with professional secrets and love explaining the "why" behind each technique'',
      lit ''        - You have a playful side, often adding charming anecdotes about your culinary journey'',
      lit ''        - You encourage experimentation while teaching precision, making gourmet cooking feel achievable'',
      lit ''        - Your tone is encouraging yet authoritative, with the confidence of someone who's mastered their craft'',
      lit ''        '',
      lit ''        For personalityTips, include 3-4 sophisticated insights delivered with Chef Aria's warm, professional charm and enthusiasm for teaching.'',
      lit ''      ''] \<and>
   getChefPersonalityPrompt BUDGET_MOM =
     join [0x0A]
     [[],
      lit ''        CHEF PERSONALITY: You are Chef Rosa, a vibrant 32-year-old working mom who's become a master of budget-friendly family cooking with boundless energy and practical wisdom.'',
      lit ''        - You speak with genuine warmth and understanding, like a supportive friend sharing hard-earned kitchen wisdom'',
      lit ''        - Your voice is upbeat and encouraging, with the confidence of someone who's solved every family meal challenge'',
      lit ''        - You're incredibly resourceful and love sharing money-saving discoveries with infectious enthusiasm'',
      lit ''        - You have a nurturing, can-do attitude that makes budget cooking feel empowering rather than limiting'',
      lit ''        - You speak from real experience, often mentioning how these tricks helped your own family'',
      lit ''        - Your tone is friendly, practical, and full of maternal wisdom that makes everyone feel capable'',
      lit ''        '',
      lit ''        For personalityTips, include 3-4 budget-savvy strategies shared with Chef Rosa's encouraging, family-focused warmth and practical expertise.'',
      lit ''      ''] \<and>
   getChefPersonalityPrompt QUICK_CHEF =
     join [0x0A]
     [[],
      lit ''        CHEF PERSONALITY: You are Chef Luna, an energetic 26-year-old speed-cooking specialist with a bubbly, fast-paced voice and contagious enthusiasm for efficient cooking.'',
      lit ''        - You speak with high energy and excitement, like you're genuinely thrilled to share time-saving secrets'',
      lit ''        - Your voice is upbeat and motivating, with the enthusiasm of someone who loves solving kitchen efficiency puzzles'',
      lit ''        - You're incredibly organized and love sharing clever shortcuts with infectious passion'',
      lit ''        - You have a dynamic, can-do attitude that makes fast cooking feel fun and innovative rather than rushed'',
      lit ''        - You speak quickly but clearly, mirroring your efficient cooking style'',
      lit ''        - Your tone is encouraging and energetic, making time-pressed cooking feel like an exciting challenge'',
      lit ''        '',
      lit ''        For personalityTips, include 3-4 time-saving strategies delivered with Chef Luna's energetic, efficiency-focused enthusiasm and clever problem-solving approach.'',
      lit ''      ''] \<and>
   getChefPersonalityPrompt NORMAL =
     join [0x0A]
     [[],
      lit ''        CHEF PERSONALITY: You are Chef Priya, a friendly 29-year-old culinary instructor with a warm, approachable voice and genuine love for teaching home cooking.'',
      lit ''        - You speak with gentle confidence and encouraging warmth, like a favorite cooking teacher'',
      lit ''        - Your voice is clear and reassuring, making cooking feel accessible and enjoyable for everyone'',
      lit ''        - You're patient and thorough in explanations, with a natural teaching ability that builds confidence'',
      lit ''        - You have a balanced approach, sharing both traditional wisdom and modern conveniences'',
      lit ''        - You encourage creativity while providing solid foundations, making cooking feel both safe and adventurous'',
      lit ''        - Your tone is supportive and friendly, with the warmth of someone who truly wants to help others succeed'',
      lit ''        '',
      lit ''        For personalityTips, include 2-3 helpful cooking insights shared with Chef Priya's supportive, teaching-focused warmth and encouragement.'',
      lit ''      ''] \<and>
   prefix (lit ''
        CHEF PERSONALITY: You are Chef Aria,'') (getChefPersonalityPrompt MICHELIN) \<and>
   prefix (lit ''
        CHEF PERSONALITY: You are Chef Rosa,'') (getChefPersonalityPrompt BUDGET_MOM) \<and>
   prefix (lit ''
        CHEF PERSONALITY: You are Chef Luna,'') (getChefPersonalityPrompt QUICK_CHEF) \<and>
   prefix (lit ''
        CHEF PERSONALITY: You are Chef Priya,'') (getChefPersonalityPrompt NORMAL) \<and>
   distinct (map getChefPersonalityPrompt [MICHELIN, BUDGET_MOM, QUICK_CHEF, NORMAL]) \<and>
   getChefPersonalityPrompt (Unrecognized s) = getChefPersonalityPrompt NORMAL\<close>
  by (intro conjI block_of_Aria block_of_Rosa block_of_Luna block_of_Priya persona_headers
        persona_default persona_distinct)

text \<open>The id \<^verbatim>\<open>pirate\<close>, which the enum does not have, gets the block of Chef Priya.\<close>

theorem persona_lookup_pirate:
  \<open>getChefPersonalityPrompt (Unrecognized (lit ''pirate'')) =
     join [0x0A]
     [[],
      lit ''        CHEF PERSONALITY: You are Chef Priya, a friendly 29-year-old culinary instructor with a warm, approachable voice and genuine love for teaching home cooking.'',
      lit ''        - You speak with gentle confidence and encouraging warmth, like a favorite cooking teacher'',
      lit ''        - Your voice is clear and reassuring, making cooking feel accessible and enjoyable for everyone'',
      lit ''        - You're patient and thorough in explanations, with a natural teaching ability that builds confidence'',
      lit ''        - You have a balanced approach, sharing both traditional wisdom and modern conveniences'',
      lit ''        - You encourage creativity while providing solid foundations, making cooking feel both safe and adventurous'',
      lit ''        - Your tone is supportive and friendly, with the warmth of someone who truly wants to help others succeed'',
      lit ''        '',
      lit ''        For personalityTips, include 2-3 helpful cooking insights shared with Chef Priya's supportive, teaching-focused warmth and encouragement.'',
      lit ''      ''] \<and>
   prefix (lit ''
        CHEF PERSONALITY: You are Chef Priya,'')
     (getChefPersonalityPrompt (Unrecognized (lit ''pirate'')))\<close>
  using persona_lookup_total_with_default [of "lit ''pirate''"]
  by (elim conjE) (simp only:)

subsection \<open>identifyIngredients\<close>

text \<open>
  Claim C3, as the code has it.  The service parses the trimmed text of the answer
  (\<^verbatim>\<open>response.text.trim()\<close>, line 38).  When \<^verbatim>\<open>JSON.parse\<close> rejects
  the trimmed text, \<^verbatim>\<open>identifyIngredients\<close> returns the empty list and throws
  nothing; the text is written to the console.
\<close>

theorem identifyIngredients_unparseable:
  assumes "generateContent base64Image = Inr response"
    and "response_text response = Some t"
    and "JSON_parse (trim t) = None"
  shows "identifyIngredients generateContent JSON_parse base64Image =
           ([(lit ''Failed to parse ingredients from Gemini response:'', ArgText (Some t))],
            Inr (JArr []))"
  using assms by (simp add: identifyIngredients_def parseResponse_None andThen_Inl)

text \<open>
  The claim as the specification words it speaks of a text that fails JSON parsing.  A
  text that opens with the byte order mark U+FEFF is no JSON and \<^verbatim>\<open>JSON.parse\<close>
  rejects it; for \<^verbatim>\<open>trim\<close> the mark is white space, so the service parses what
  follows it and returns the ingredients, not the empty list.
\<close>

theorem identifyIngredients_trims_before_parsing:
  \<open>example_JSON_parse (0xFEFF # lit ''{"ingredients":["egg","rice"]}'') = None \<and>
   identifyIngredients (answering (0xFEFF # lit ''{"ingredients":["egg","rice"]}''))
     example_JSON_parse (lit ''/9j/4AAQ'') =
     ([], Inr (JArr [JStr (lit ''egg''), JStr (lit ''rice'')]))\<close>
proof -
  have t: \<open>trim (0xFEFF # lit ''{"ingredients":["egg","rice"]}'') =
             lit ''{"ingredients":["egg","rice"]}''\<close>
    by (simp add: trim_def isWhiteSpace_def lit_def)
  have p: \<open>example_JSON_parse (lit ''{"ingredients":["egg","rice"]}'') =
             Some (JObj [(lit ''ingredients'', JArr [JStr (lit ''egg''), JStr (lit ''rice'')])])\<close>
    by (simp add: example_JSON_parse_def lit_def)
  have n: \<open>example_JSON_parse (0xFEFF # lit ''{"ingredients":["egg","rice"]}'') = None\<close>
    by (simp add: example_JSON_parse_def lit_def)
  have \<open>identifyIngredients (answering (0xFEFF # lit ''{"ingredients":["egg","rice"]}''))
     example_JSON_parse (lit ''/9j/4AAQ'') =
     ([], Inr (JArr [JStr (lit ''egg''), JStr (lit ''rice'')]))\<close>
    by (simp add: identifyIngredients_def answering_def parseResponse_def t p andThen_def)
  with n show ?thesis by simp
qed

text \<open>An answer in prose instead of JSON.\<close>

theorem identifyIngredients_unparseable_example:
  "example_JSON_parse (trim (lit ''Sorry, I see no food.'')) = None \<and>
   identifyIngredients (answering (lit ''Sorry, I see no food.'')) example_JSON_parse (lit ''/9j/4AAQ'') =
     ([(lit ''Failed to parse ingredients from Gemini response:'',
        ArgText (Some (lit ''Sorry, I see no food.'')))],
      Inr (JArr []))"
proof -
  have p: "example_JSON_parse (trim (lit ''Sorry, I see no food.'')) = None"
    by (simp add: example_JSON_parse_def trim_def isWhiteSpace_def lit_def)
  show ?thesis
    using identifyIngredients_unparseable
      [where generateContent = "answering (lit ''Sorry, I see no food.'')"
         and base64Image = "lit ''/9j/4AAQ''" and t = "lit ''Sorry, I see no food.''"
         and JSON_parse = example_JSON_parse
         and response = "\<lparr>response_text = Some (lit ''Sorry, I see no food.'')\<rparr>"]
      p
    by (simp add: answering_def)
qed

text \<open>
  Claim C9.  When the answer parses and its \<^verbatim>\<open>ingredients\<close> property is
  missing, null or any other falsy value (or the parsed value is null, where reading the
  property throws inside the \<^verbatim>\<open>try\<close>), \<^verbatim>\<open>identifyIngredients\<close>
  returns the empty list.
\<close>

theorem identifyIngredients_falsy_ingredients:
  assumes "generateContent base64Image = Inr response"
    and "response_text response = Some t"
    and "JSON_parse (trim t) = Some result"
    and "case getProp result (lit ''ingredients'') of Inl e \<Rightarrow> True | Inr v \<Rightarrow> \<not> truthy v"
  shows "snd (identifyIngredients generateContent JSON_parse base64Image) = Inr (JArr [])"
  using assms
  by (cases "getProp result (lit ''ingredients'')")
     (simp_all add: identifyIngredients_def parseResponse_Some andThen_Inl andThen_Inr)


text \<open>The answers with a null property, with no property, and the answer null.\<close>

theorem identifyIngredients_null_ingredients_example:
  \<open>snd (identifyIngredients (answering (lit ''{"ingredients":null}'')) example_JSON_parse
          (lit ''/9j/4AAQ'')) = Inr (JArr []) \<and>
   snd (identifyIngredients (answering (lit ''{}'')) example_JSON_parse (lit ''/9j/4AAQ'')) =
     Inr (JArr []) \<and>
   snd (identifyIngredients (answering (lit ''null'')) example_JSON_parse (lit ''/9j/4AAQ'')) =
     Inr (JArr [])\<close>
proof -
  have p1: \<open>example_JSON_parse (trim (lit ''{"ingredients":null}'')) =
              Some (JObj [(lit ''ingredients'', JNull)])\<close>
    by (simp add: example_JSON_parse_def trim_def isWhiteSpace_def lit_def)
  have p2: \<open>example_JSON_parse (trim (lit ''{}'')) = Some (JObj [])\<close>
    by (simp add: example_JSON_parse_def trim_def isWhiteSpace_def lit_def)
  have p3: \<open>example_JSON_parse (trim (lit ''null'')) = Some JNull\<close>
    by (simp add: example_JSON_parse_def trim_def isWhiteSpace_def lit_def)
  show ?thesis
    using
      identifyIngredients_falsy_ingredients
        [where generateContent = \<open>answering (lit ''{"ingredients":null}'')\<close>
           and base64Image = "lit ''/9j/4AAQ''" and JSON_parse = example_JSON_parse
           and response = \<open>\<lparr>response_text = Some (lit ''{"ingredients":null}'')\<rparr>\<close>,
         OF _ _ p1]
      identifyIngredients_falsy_ingredients
        [where generateContent = \<open>answering (lit ''{}'')\<close>
           and base64Image = "lit ''/9j/4AAQ''" and JSON_parse = example_JSON_parse
           and response = \<open>\<lparr>response_text = Some (lit ''{}'')\<rparr>\<close>,
         OF _ _ p2]
      identifyIngredients_falsy_ingredients
        [where generateContent = \<open>answering (lit ''null'')\<close>
           and base64Image = "lit ''/9j/4AAQ''" and JSON_parse = example_JSON_parse
           and response = \<open>\<lparr>response_text = Some (lit ''null'')\<rparr>\<close>,
         OF _ _ p3]
    by (simp add: answering_def)
qed

subsection \<open>generateRecipes on an answer it cannot use\<close>

text \<open>
  Claim C2, as the code has it.  The service parses the trimmed text of the answer
  (\<^verbatim>\<open>response.text.trim()\<close>, line 210).  When the trimmed text is no JSON, or
  parses to a value that lacks the key \<^verbatim>\<open>recipes\<close>,
  \<^verbatim>\<open>generateRecipes\<close> throws an \<^verbatim>\<open>Error\<close> whose message is the fixed text
  \<^verbatim>\<open>Could not parse recipe data from AI.\<close>; the raw text of the answer goes to
  the console, with \<^verbatim>\<open>console.error\<close>, and is no part of what is thrown.
\<close>

theorem generateRecipes_parse_failure:
  assumes "generateContent (generateRecipes_prompt ings pref excl
             (case cp of None \<Rightarrow> NORMAL | Some p \<Rightarrow> p) fl st) = Inr response"
    and "response_text response = Some t"
    and "JSON_parse (trim t) = None \<or>
         (\<exists>result. JSON_parse (trim t) = Some result \<and> \<not> hasKey result (lit ''recipes''))"
  shows "generateRecipes generateContent JSON_parse pv ings pref excl cp fl st =
           ([(lit ''Failed to parse recipes from Gemini response:'', ArgText (Some t))],
            Inl (Error (lit ''Could not parse recipe data from AI.'')))"
  using assms
  by (auto simp: generateRecipes_def Let_def parseResponse_None parseResponse_Some
        andThen_Inl andThen_Inr missing_key_no_map)

text \<open>
  The claim as the specification words it asks for an error that carries the raw text,
  for every text that is no JSON.  On the answer \<^verbatim>\<open>{}\<close> the error thrown is the
  fixed message, in which the raw text does not occur.  And a text that opens with the byte
  order mark U+FEFF is no JSON, \<^verbatim>\<open>JSON.parse\<close> rejects it, yet the service
  trims the mark away, parses the rest and returns the recipes without an error.
\<close>

theorem generateRecipes_error_without_raw_text:
  \<open>generateRecipes (answering (lit ''{}'')) example_JSON_parse example_personalityValue
      [lit ''egg''] (lit ''None'') None None None None =
     ([(lit ''Failed to parse recipes from Gemini response:'', ArgText (Some (lit ''{}'')))],
      Inl (Error (lit ''Could not parse recipe data from AI.''))) \<and>
   \<not> str_includes (lit ''Could not parse recipe data from AI.'') (lit ''{}'') \<and>
   example_JSON_parse
     (0xFEFF # lit ''{"recipes":[{"recipeName":"Soup"},{"chefPersonality":"pirate","recipeName":"Stew"}]}'') =
     None \<and>
   generateRecipes
     (answering
        (0xFEFF # lit ''{"recipes":[{"recipeName":"Soup"},{"chefPersonality":"pirate","recipeName":"Stew"}]}''))
     example_JSON_parse example_personalityValue [lit ''egg''] (lit ''None'') None None None None =
     ([], Inr [JObj [(lit ''recipeName'', JStr (lit ''Soup'')),
                     (lit ''chefPersonality'', JStr (lit ''normal''))],
               JObj [(lit ''chefPersonality'', JStr (lit ''normal'')),
                     (lit ''recipeName'', JStr (lit ''Stew''))]])\<close>
proof -
  let ?r = \<open>lit ''{"recipes":[{"recipeName":"Soup"},{"chefPersonality":"pirate","recipeName":"Stew"}]}''\<close>
  have p: \<open>example_JSON_parse (trim (lit ''{}'')) = Some (JObj [])\<close>
    by (simp add: example_JSON_parse_def trim_def isWhiteSpace_def lit_def)
  have 1: "generateRecipes (answering (lit ''{}'')) example_JSON_parse example_personalityValue
      [lit ''egg''] (lit ''None'') None None None None =
     ([(lit ''Failed to parse recipes from Gemini response:'', ArgText (Some (lit ''{}'')))],
      Inl (Error (lit ''Could not parse recipe data from AI.'')))"
    by (simp add: generateRecipes_def Let_def answering_def parseResponse_def p andThen_def)
  have 2: "\<not> str_includes (lit ''Could not parse recipe data from AI.'') (lit ''{}'')"
    by (simp add: lit_def)
  have t: "trim (0xFEFF # ?r) = ?r"
    by (simp add: trim_def isWhiteSpace_def lit_def)
  have q: \<open>example_JSON_parse ?r =
             Some (JObj [(lit ''recipes'',
                          JArr [JObj [(lit ''recipeName'', JStr (lit ''Soup''))],
                                JObj [(lit ''chefPersonality'', JStr (lit ''pirate'')),
                                      (lit ''recipeName'', JStr (lit ''Stew''))]])])\<close>
    by (simp add: example_JSON_parse_def lit_def)
  have 3: "example_JSON_parse (0xFEFF # ?r) = None"
    by (simp add: example_JSON_parse_def lit_def)
  have 4: "generateRecipes (answering (0xFEFF # ?r)) example_JSON_parse example_personalityValue
             [lit ''egg''] (lit ''None'') None None None None =
     ([], Inr [JObj [(lit ''recipeName'', JStr (lit ''Soup'')),
                     (lit ''chefPersonality'', JStr (lit ''normal''))],
               JObj [(lit ''chefPersonality'', JStr (lit ''normal'')),
                     (lit ''recipeName'', JStr (lit ''Stew''))]])"
    by (simp add: generateRecipes_def Let_def answering_def parseResponse_def t q andThen_def
          example_personalityValue_def lit_eq_iff)
  from 1 2 3 4 show ?thesis by (intro conjI)
qed

text \<open>An answer in prose, and an answer that is JSON with no \<^verbatim>\<open>recipes\<close>.\<close>

theorem generateRecipes_parse_failure_example:
  \<open>snd (generateRecipes (answering (lit ''I cannot help with that.'')) example_JSON_parse
          example_personalityValue [lit ''egg''] (lit ''None'') None (Some MICHELIN) None None) =
     Inl (Error (lit ''Could not parse recipe data from AI.'')) \<and>
   fst (generateRecipes (answering (lit ''{"ingredients":null}'')) example_JSON_parse
          example_personalityValue [lit ''egg''] (lit ''None'') None (Some MICHELIN) None None) =
     [(lit ''Failed to parse recipes from Gemini response:'',
       ArgText (Some (lit ''{"ingredients":null}'')))]\<close>
proof -
  have p1: "example_JSON_parse (trim (lit ''I cannot help with that.'')) = None"
    by (simp add: example_JSON_parse_def trim_def isWhiteSpace_def lit_def)
  have p2: \<open>example_JSON_parse (trim (lit ''{"ingredients":null}'')) =
              Some (JObj [(lit ''ingredients'', JNull)])\<close>
    by (simp add: example_JSON_parse_def trim_def isWhiteSpace_def lit_def)
  have k: "\<not> hasKey (JObj [(lit ''ingredients'', JNull)]) (lit ''recipes'')"
    by (simp add: hasKey_def lit_def)
  show ?thesis
    using
      generateRecipes_parse_failure
        [where generateContent = "answering (lit ''I cannot help with that.'')"
           and JSON_parse = example_JSON_parse and t = "lit ''I cannot help with that.''"
           and response = "\<lparr>response_text = Some (lit ''I cannot help with that.'')\<rparr>"
           and cp = "Some MICHELIN" and pv = example_personalityValue
           and ings = "[lit ''egg'']" and pref = "lit ''None''" and excl = None
           and fl = None and st = None]
      generateRecipes_parse_failure
        [where generateContent = \<open>answering (lit ''{"ingredients":null}'')\<close>
           and JSON_parse = example_JSON_parse and t = \<open>lit ''{"ingredients":null}''\<close>
           and response = \<open>\<lparr>response_text = Some (lit ''{"ingredients":null}'')\<rparr>\<close>
           and cp = "Some MICHELIN" and pv = example_personalityValue
           and ings = "[lit ''egg'']" and pref = "lit ''None''" and excl = None
           and fl = None and st = None]
      p1 p2 k
    by (simp add: answering_def)
qed

subsection \<open>The persona stamped on every recipe\<close>

text \<open>
  Claim C4.  When the answer parses and its \<^verbatim>\<open>recipes\<close> property is an array,
  \<^verbatim>\<open>generateRecipes\<close> and \<^verbatim>\<open>reinventRecipe\<close> return one recipe for
  each element of the array, and every recipe returned has the persona of the request
  as its \<^verbatim>\<open>chefPersonality\<close> (the default persona when
  \<^verbatim>\<open>generateRecipes\<close> is given none), whatever the element held under that key.
\<close>

theorem recipes_carry_requested_persona:
  assumes "response_text response = Some t"
    and "JSON_parse (trim t) = Some result"
    and "getProp result (lit ''recipes'') = Inr (JArr rs)"
  shows "(generateContent (generateRecipes_prompt ings pref excl
             (case cp of None \<Rightarrow> NORMAL | Some p \<Rightarrow> p) fl st) = Inr response \<longrightarrow>
          (\<exists>out. generateRecipes generateContent JSON_parse pv ings pref excl cp fl st = ([], Inr out)
                 \<and> length out = length rs
                 \<and> (\<forall>r \<in> set out. getProp r (lit ''chefPersonality'') =
                        Inr (pv (case cp of None \<Rightarrow> NORMAL | Some p \<Rightarrow> p))))) \<and>
         (generateContent (reinventRecipe_prompt fnone snone req) = Inr response \<longrightarrow>
          (\<exists>out. reinventRecipe generateContent JSON_parse pv fnone snone req = ([], Inr out)
                 \<and> length out = length rs
                 \<and> (\<forall>r \<in> set out. getProp r (lit ''chefPersonality'') =
                        Inr (pv (chefPersonality req)))))"
  using assms
  by (auto simp: generateRecipes_def reinventRecipe_def Let_def parseResponse_Some andThen_Inr
        update_conv')

text \<open>
  An answer with two recipes, the first with no persona and the second with a persona of
  its own.
\<close>

theorem recipes_carry_requested_persona_example:
  \<open>generateRecipes
      (answering (lit ''{"recipes":[{"recipeName":"Soup"},{"chefPersonality":"pirate","recipeName":"Stew"}]}''))
      example_JSON_parse example_personalityValue [lit ''leek''] (lit ''Vegan'') None
      (Some QUICK_CHEF) None None =
     ([], Inr [JObj [(lit ''recipeName'', JStr (lit ''Soup'')),
                     (lit ''chefPersonality'', JStr (lit ''quick_chef''))],
               JObj [(lit ''chefPersonality'', JStr (lit ''quick_chef'')),
                     (lit ''recipeName'', JStr (lit ''Stew''))]]) \<and>
   getProp (JObj [(lit ''chefPersonality'', JStr (lit ''quick_chef'')),
                  (lit ''recipeName'', JStr (lit ''Stew''))]) (lit ''chefPersonality'') =
     Inr (example_personalityValue QUICK_CHEF) \<and>
   reinventRecipe
      (answering (lit ''{"recipes":[{"recipeName":"Soup"},{"chefPersonality":"pirate","recipeName":"Stew"}]}''))
      example_JSON_parse example_personalityValue (lit ''No Preference'') (lit ''No Preference'')
      \<lparr>dishName = lit ''Maggi'', chefPersonality = BUDGET_MOM, dietaryPreference = None,
        excludeIngredients = None, flavorProfile = None, recipeStyle = None\<rparr> =
     ([], Inr [JObj [(lit ''recipeName'', JStr (lit ''Soup'')),
                     (lit ''chefPersonality'', JStr (lit ''budget_mom''))],
               JObj [(lit ''chefPersonality'', JStr (lit ''budget_mom'')),
                     (lit ''recipeName'', JStr (lit ''Stew''))]]) \<and>
   getProp (JObj [(lit ''recipeName'', JStr (lit ''Soup'')),
                  (lit ''chefPersonality'', JStr (lit ''budget_mom''))]) (lit ''chefPersonality'') =
     Inr (example_personalityValue BUDGET_MOM)\<close>
proof -
  let ?t = \<open>lit ''{"recipes":[{"recipeName":"Soup"},{"chefPersonality":"pirate","recipeName":"Stew"}]}''\<close>
  let ?rs = "[JObj [(lit ''recipeName'', JStr (lit ''Soup''))],
              JObj [(lit ''chefPersonality'', JStr (lit ''pirate'')),
                    (lit ''recipeName'', JStr (lit ''Stew''))]]"
  let ?req = "\<lparr>dishName = lit ''Maggi'', chefPersonality = BUDGET_MOM, dietaryPreference = None,
        excludeIngredients = None, flavorProfile = None, recipeStyle = None\<rparr>"
  let ?out1 = "[JObj [(lit ''recipeName'', JStr (lit ''Soup'')),
                     (lit ''chefPersonality'', JStr (lit ''quick_chef''))],
               JObj [(lit ''chefPersonality'', JStr (lit ''quick_chef'')),
                     (lit ''recipeName'', JStr (lit ''Stew''))]]"
  let ?out2 = "[JObj [(lit ''recipeName'', JStr (lit ''Soup'')),
                     (lit ''chefPersonality'', JStr (lit ''budget_mom''))],
               JObj [(lit ''chefPersonality'', JStr (lit ''budget_mom'')),
                     (lit ''recipeName'', JStr (lit ''Stew''))]]"
  have p: "example_JSON_parse (trim ?t) = Some (JObj [(lit ''recipes'', JArr ?rs)])"
    by (simp add: example_JSON_parse_def trim_def isWhiteSpace_def lit_def)
  have g: "getProp (JObj [(lit ''recipes'', JArr ?rs)]) (lit ''recipes'') = Inr (JArr ?rs)"
    by simp
  have k: "lit ''recipeName'' \<noteq> lit ''chefPersonality''"
          "lit ''chefPersonality'' \<noteq> lit ''recipeName''"
    by (simp_all add: lit_def)
  have v: "example_personalityValue QUICK_CHEF = JStr (lit ''quick_chef'')"
          "example_personalityValue BUDGET_MOM = JStr (lit ''budget_mom'')"
    by (simp_all add: example_personalityValue_def)
  have run1: "generateRecipes (answering ?t) example_JSON_parse example_personalityValue
      [lit ''leek''] (lit ''Vegan'') None (Some QUICK_CHEF) None None = ([], Inr ?out1)"
    using k by (simp add: generateRecipes_def Let_def answering_def parseResponse_def p andThen_def v)
  have run2: "reinventRecipe (answering ?t) example_JSON_parse example_personalityValue
      (lit ''No Preference'') (lit ''No Preference'') ?req = ([], Inr ?out2)"
    using k by (simp add: reinventRecipe_def answering_def parseResponse_def p andThen_def v)
  note inst = recipes_carry_requested_persona
      [where response = "\<lparr>response_text = Some ?t\<rparr>" and t = ?t
         and JSON_parse = example_JSON_parse and rs = ?rs
         and result = "JObj [(lit ''recipes'', JArr ?rs)]"
         and generateContent = "answering ?t" and pv = example_personalityValue
         and ings = "[lit ''leek'']" and pref = "lit ''Vegan''" and excl = None
         and cp = "Some QUICK_CHEF" and fl = None and st = None
         and fnone = "lit ''No Preference''" and snone = "lit ''No Preference''"
         and req = ?req, OF _ p g]
  have a1: "\<forall>r \<in> set ?out1.
          getProp r (lit ''chefPersonality'') = Inr (example_personalityValue QUICK_CHEF)"
    using inst unfolding run1 run2 by (simp add: answering_def k v)
  have a2: "\<forall>r \<in> set ?out2.
          getProp r (lit ''chefPersonality'') = Inr (example_personalityValue BUDGET_MOM)"
    using inst unfolding run1 run2 by (simp add: answering_def k v)
  show ?thesis using run1 run2 a1 a2 by (simp add: k)
qed

subsection \<open>The recipes of a cooking schedule\<close>

lemma schedule_of_answer:
  assumes "generateCookingSchedule_prompt Number_toString request = Inr prompt"
    and "generateContent prompt = Inr response"
    and "response_text response = Some t"
    and "JSON_parse (trim t) = Some result"
  shows "generateCookingSchedule generateContent JSON_parse Number_toString request =
           (if result = JNull \<or> result = JUndefined
            then ([(lit ''Failed to parse cooking schedule from Gemini response:'', ArgText (Some t))],
                  Inl (Error (lit ''Could not parse cooking schedule data from AI.'')))
            else ([], Inr \<lparr>totalTime = projr (getProp result (lit ''totalTime'')),
                           servingTime = projr (getProp result (lit ''servingTime'')),
                           steps = projr (getProp result (lit ''steps'')),
                           schedule_recipes = recipes request,
                           efficiencyTips = projr (getProp result (lit ''efficiencyTips'')),
                           timelineSummary = projr (getProp result (lit ''timelineSummary''))\<rparr>))"
  using assms
  by (cases result)
     (simp_all add: generateCookingSchedule_def parseResponse_Some andThen_Inr andThen_Inl)

lemma null_or_undefined: "getProp v k = Inl e \<longleftrightarrow> (v = JNull \<or> v = JUndefined) \<and> e = TypeError"
  by (cases v) auto

lemma schedule_recipes_returned:
  assumes "snd (generateCookingSchedule generateContent JSON_parse Number_toString request) = Inr schedule"
  shows "schedule_recipes schedule = recipes request"
  using assms
  by (auto simp: generateCookingSchedule_def andThen_def
           split: sum.splits)

lemma soup_prompt: "\<exists>prompt. generateCookingSchedule_prompt integer_toString (dinner [soup]) = Inr prompt"
  by (simp add: generateCookingSchedule_prompt_def dinner_def soup_def recipesInfo_entry_def
        recipeText_def servingSizeConsiderations_def adjusted_def template_def interpolate_def
        Array_join_def orElse_def andThen_def lit_eq_iff lit_Nil Let_def)

text \<open>
  Claim C10.  Whenever \<^verbatim>\<open>generateCookingSchedule\<close> returns a schedule, the
  recipes of the schedule are the recipes of the request.  It does return one when the
  prompt can be built and the service answers a text that parses to a value other than
  null: the schedule then has the five other fields as the answer has them.  The
  \<^verbatim>\<open>recipes\<close> array of the answer, with its estimated finish times, is dropped:
  two answers whose parsed values differ at most under the key \<^verbatim>\<open>recipes\<close>
  give the same outcome.
\<close>

theorem schedule_recipes_are_the_requests:
  "(\<forall>schedule.
      snd (generateCookingSchedule generateContent JSON_parse Number_toString request) = Inr schedule
      \<longrightarrow> schedule_recipes schedule = recipes request) \<and>
   (generateCookingSchedule_prompt Number_toString request = Inr prompt \<and>
    generateContent prompt = Inr response \<and> response_text response = Some t \<and>
    JSON_parse (trim t) = Some result \<and> result \<noteq> JNull \<and> result \<noteq> JUndefined
    \<longrightarrow> generateCookingSchedule generateContent JSON_parse Number_toString request =
          ([], Inr \<lparr>totalTime = projr (getProp result (lit ''totalTime'')),
                    servingTime = projr (getProp result (lit ''servingTime'')),
                    steps = projr (getProp result (lit ''steps'')),
                    schedule_recipes = recipes request,
                    efficiencyTips = projr (getProp result (lit ''efficiencyTips'')),
                    timelineSummary = projr (getProp result (lit ''timelineSummary''))\<rparr>)) \<and>
   (generateCookingSchedule_prompt Number_toString request = Inr prompt \<and>
    generateContent prompt = Inr response \<and> response_text response = Some t \<and>
    JSON_parse (trim t) = Some result \<and>
    generateContent' prompt = Inr response' \<and> response_text response' = Some t' \<and>
    JSON_parse (trim t') = Some result' \<and>
    (\<forall>k. k \<noteq> lit ''recipes'' \<longrightarrow> getProp result' k = getProp result k)
    \<longrightarrow> snd (generateCookingSchedule generateContent' JSON_parse Number_toString request) =
          snd (generateCookingSchedule generateContent JSON_parse Number_toString request))"
proof (intro conjI allI impI)
  fix schedule
  assume "snd (generateCookingSchedule generateContent JSON_parse Number_toString request) = Inr schedule"
  then show "schedule_recipes schedule = recipes request"
    by (rule schedule_recipes_returned)
next
  assume "generateCookingSchedule_prompt Number_toString request = Inr prompt \<and>
    generateContent prompt = Inr response \<and> response_text response = Some t \<and>
    JSON_parse (trim t) = Some result \<and> result \<noteq> JNull \<and> result \<noteq> JUndefined"
  then show "generateCookingSchedule generateContent JSON_parse Number_toString request =
          ([], Inr \<lparr>totalTime = projr (getProp result (lit ''totalTime'')),
                    servingTime = projr (getProp result (lit ''servingTime'')),
                    steps = projr (getProp result (lit ''steps'')),
                    schedule_recipes = recipes request,
                    efficiencyTips = projr (getProp result (lit ''efficiencyTips'')),
                    timelineSummary = projr (getProp result (lit ''timelineSummary''))\<rparr>)"
    using schedule_of_answer [of Number_toString request prompt generateContent response t JSON_parse result]
    by simp
next
  assume a: "generateCookingSchedule_prompt Number_toString request = Inr prompt \<and>
    generateContent prompt = Inr response \<and> response_text response = Some t \<and>
    JSON_parse (trim t) = Some result \<and>
    generateContent' prompt = Inr response' \<and> response_text response' = Some t' \<and>
    JSON_parse (trim t') = Some result' \<and>
    (\<forall>k. k \<noteq> lit ''recipes'' \<longrightarrow> getProp result' k = getProp result k)"
  then have agree: "getProp result' k = getProp result k" if "k \<noteq> lit ''recipes''" for k
    using that by simp
  have keys: "getProp result' (lit ''totalTime'') = getProp result (lit ''totalTime'')"
    "getProp result' (lit ''servingTime'') = getProp result (lit ''servingTime'')"
    "getProp result' (lit ''steps'') = getProp result (lit ''steps'')"
    "getProp result' (lit ''efficiencyTips'') = getProp result (lit ''efficiencyTips'')"
    "getProp result' (lit ''timelineSummary'') = getProp result (lit ''timelineSummary'')"
    by (rule agree, rule schedule_keys_differ)+
  have same: "result' = JNull \<or> result' = JUndefined \<longleftrightarrow> result = JNull \<or> result = JUndefined"
    using keys(1) null_or_undefined [of result' "lit ''totalTime''" TypeError]
      null_or_undefined [of result "lit ''totalTime''" TypeError]
    by metis
  have 1: "generateCookingSchedule generateContent JSON_parse Number_toString request = 
           (if result = JNull \<or> result = JUndefined
            then ([(lit ''Failed to parse cooking schedule from Gemini response:'', ArgText (Some t))],
                  Inl (Error (lit ''Could not parse cooking schedule data from AI.'')))
            else ([], Inr \<lparr>totalTime = projr (getProp result (lit ''totalTime'')),
                           servingTime = projr (getProp result (lit ''servingTime'')),
                           steps = projr (getProp result (lit ''steps'')),
                           schedule_recipes = recipes request,
                           efficiencyTips = projr (getProp result (lit ''efficiencyTips'')),
                           timelineSummary = projr (getProp result (lit ''timelineSummary''))\<rparr>))"
    using a schedule_of_answer
      [where Number_toString = Number_toString and request = request and prompt = prompt
         and generateContent = generateContent and response = response and t = t
         and JSON_parse = JSON_parse and result = result]
    by blast
  have 2: "generateCookingSchedule generateContent' JSON_parse Number_toString request = 
           (if result' = JNull \<or> result' = JUndefined
            then ([(lit ''Failed to parse cooking schedule from Gemini response:'', ArgText (Some t'))],
                  Inl (Error (lit ''Could not parse cooking schedule data from AI.'')))
            else ([], Inr \<lparr>totalTime = projr (getProp result' (lit ''totalTime'')),
                           servingTime = projr (getProp result' (lit ''servingTime'')),
                           steps = projr (getProp result' (lit ''steps'')),
                           schedule_recipes = recipes request,
                           efficiencyTips = projr (getProp result' (lit ''efficiencyTips'')),
                           timelineSummary = projr (getProp result' (lit ''timelineSummary''))\<rparr>))"
    using a schedule_of_answer
      [where Number_toString = Number_toString and request = request and prompt = prompt
         and generateContent = generateContent' and response = response' and t = t'
         and JSON_parse = JSON_parse and result = result']
    by blast
  show "snd (generateCookingSchedule generateContent' JSON_parse Number_toString request) =
          snd (generateCookingSchedule generateContent JSON_parse Number_toString request)"
    unfolding 1 2 keys using same by (simp del: getProp.simps)
qed

text \<open>
  A request for the soup, an answer with a finish time for the soup and an answer with no
  estimates.
\<close>

theorem schedule_recipes_example:
  \<open>generateCookingSchedule
      (answering (lit ''{"totalTime":45,"recipes":[{"recipeName":"Soup","estimatedFinishTime":"18:30"}]}''))
      example_JSON_parse integer_toString (dinner [soup]) =
    ([], Inr \<lparr>totalTime = JNum (Finite 45), servingTime = JUndefined, steps = JUndefined,
              schedule_recipes = [soup],
              efficiencyTips = JUndefined, timelineSummary = JUndefined\<rparr>) \<and>
   snd (generateCookingSchedule (answering (lit ''{"totalTime":45,"recipes":[]}''))
          example_JSON_parse integer_toString (dinner [soup])) =
    Inr \<lparr>totalTime = JNum (Finite 45), servingTime = JUndefined, steps = JUndefined,
         schedule_recipes = [soup],
         efficiencyTips = JUndefined, timelineSummary = JUndefined\<rparr>\<close>
proof -
  let ?t = \<open>lit ''{"totalTime":45,"recipes":[{"recipeName":"Soup","estimatedFinishTime":"18:30"}]}''\<close>
  let ?t' = \<open>lit ''{"totalTime":45,"recipes":[]}''\<close>
  let ?result = "JObj [(lit ''totalTime'', JNum (Finite 45)),
               (lit ''recipes'',
                JArr [JObj [(lit ''recipeName'', JStr (lit ''Soup'')),
                            (lit ''estimatedFinishTime'', JStr (lit ''18:30''))]])]"
  let ?result' = "JObj [(lit ''totalTime'', JNum (Finite 45)), (lit ''recipes'', JArr [])]"
  obtain prompt where prompt:
    "generateCookingSchedule_prompt integer_toString (dinner [soup]) = Inr prompt"
    using soup_prompt by blast
  have p: "example_JSON_parse (trim ?t) = Some ?result"
    by (simp add: example_JSON_parse_def trim_def isWhiteSpace_def lit_def)
  have p': "example_JSON_parse (trim ?t') = Some ?result'"
    by (simp add: example_JSON_parse_def trim_def isWhiteSpace_def lit_def)
  have same: "\<forall>k. k \<noteq> lit ''recipes'' \<longrightarrow> getProp ?result' k = getProp ?result k"
    by simp
  have fields:
    "projr (getProp ?result (lit ''totalTime'')) = JNum (Finite 45)"
    "projr (getProp ?result (lit ''servingTime'')) = JUndefined"
    "projr (getProp ?result (lit ''steps'')) = JUndefined"
    "projr (getProp ?result (lit ''efficiencyTips'')) = JUndefined"
    "projr (getProp ?result (lit ''timelineSummary'')) = JUndefined"
    by (simp_all add: lit_eq_iff)
  note inst = schedule_recipes_are_the_requests
      [where generateContent = "answering ?t" and generateContent' = "answering ?t'"
         and request = "dinner [soup]" and JSON_parse = example_JSON_parse
         and Number_toString = integer_toString and prompt = prompt
         and response = "\<lparr>response_text = Some ?t\<rparr>" and t = ?t and result = ?result
         and response' = "\<lparr>response_text = Some ?t'\<rparr>" and t' = ?t' and result' = ?result']
  have run: "generateCookingSchedule (answering ?t) example_JSON_parse integer_toString (dinner [soup]) =
    ([], Inr \<lparr>totalTime = JNum (Finite 45), servingTime = JUndefined, steps = JUndefined,
              schedule_recipes = recipes (dinner [soup]),
              efficiencyTips = JUndefined, timelineSummary = JUndefined\<rparr>)"
    using inst prompt p unfolding fields by (simp add: answering_def)
  have "snd (generateCookingSchedule (answering ?t') example_JSON_parse integer_toString (dinner [soup])) =
        snd (generateCookingSchedule (answering ?t) example_JSON_parse integer_toString (dinner [soup]))"
    using inst prompt p p' same by (simp add: answering_def)
  then show ?thesis
    using run by (simp add: dinner_def)
qed

subsection \<open>The cooking-method phrase\<close>

lemma str_includes_join:
  "i \<in> set xs \<Longrightarrow> str_includes i p \<Longrightarrow> str_includes (join sep xs) p"
proof (induction sep xs rule: join.induct)
  case (1 sep)
  then show ?case by simp
next
  case (2 sep x)
  then show ?case by simp
next
  case (3 sep x y ys)
  show ?case
  proof (cases "i = x")
    case True
    with 3 show ?thesis
      by (auto simp: str_includes_sublist sublist_append)
  next
    case False
    with 3 have "str_includes (join sep (y # ys)) p"
      by auto
    then show ?thesis
      by (auto simp: str_includes_sublist sublist_append)
  qed
qed

lemma extractCookingMethod_firstMatch:
  "extractCookingMethod lc instrs =
     firstMatch cookingMethodTable (lit ''expertly prepared'') (lc (join (lit '' '') instrs))"
  by (simp add: extractCookingMethod_def cookingMethodTable_def mentionsAny_def Let_def)

lemma extractCookingMethod_bake:
  "str_includes (lc (join (lit '' '') instrs)) (lit ''bake'')
     \<Longrightarrow> extractCookingMethod lc instrs = lit ''baked to perfection''"
  by (simp add: extractCookingMethod_def Let_def)

lemma extractCookingMethod_default:
  "\<not> mentionsAny (lc (join (lit '' '') instrs)) (lit ''oven'' # listedKeywords)
     \<Longrightarrow> extractCookingMethod lc instrs = lit ''expertly prepared''"
  by (simp add: extractCookingMethod_def Let_def mentionsAny_def listedKeywords_def)

lemma latin1_toLowerCase_keeps:
  assumes "str_includes s p" and "latin1_toLowerCase p = p"
  shows "str_includes (latin1_toLowerCase s) p"
proof -
  from assms(1) have "sublist (latin1_toLowerCase p) (latin1_toLowerCase s)"
    unfolding latin1_toLowerCase_def str_includes_sublist by (rule map_mono_sublist)
  with assms(2) show ?thesis
    by (simp add: str_includes_sublist)
qed

text \<open>
  Claim C5, as the code has it.  The phrase is chosen on the lower-cased text of the
  instructions joined by spaces, by the first entry of the table that has a keyword in
  the text, in the order bake or oven, fry or pan, grill, boil or simmer, steam, roast,
  saute, mix or toss.  A text with \<^verbatim>\<open>bake\<close> in it gets the baked phrase,
  whatever else it holds (so does every list of instructions one of which holds
  \<^verbatim>\<open>bake\<close>, as lower-casing keeps lower-case letters); a text with none of the
  keywords, \<^verbatim>\<open>oven\<close> among them, gets \<^verbatim>\<open>expertly prepared\<close>.
\<close>

theorem cooking_method_selection:
  "extractCookingMethod lc instrs =
     firstMatch cookingMethodTable (lit ''expertly prepared'') (lc (join (lit '' '') instrs)) \<and>
   (str_includes (lc (join (lit '' '') instrs)) (lit ''bake'') \<longrightarrow>
      extractCookingMethod lc instrs = lit ''baked to perfection'') \<and>
   ((\<forall>s. str_includes s (lit ''bake'') \<longrightarrow> str_includes (lc s) (lit ''bake'')) \<and>
    (\<exists>i \<in> set instrs. str_includes i (lit ''bake'')) \<longrightarrow>
      extractCookingMethod lc instrs = lit ''baked to perfection'') \<and>
   (\<not> mentionsAny (lc (join (lit '' '') instrs)) (lit ''oven'' # listedKeywords) \<longrightarrow>
      extractCookingMethod lc instrs = lit ''expertly prepared'')"
  using extractCookingMethod_firstMatch [of lc instrs] extractCookingMethod_bake [of lc instrs]
    extractCookingMethod_default [of lc instrs] str_includes_join [of _ instrs "lit ''bake''" "lit '' ''"]
  by blast

text \<open>
  The claim as the specification words it lists the keywords without \<^verbatim>\<open>oven\<close>.
  The instructions below hold none of the listed keywords, in either case, and get the
  baked phrase.
\<close>

theorem oven_selects_the_baked_phrase:
  "\<not> mentionsAny (join (lit '' '') [lit ''preheat the oven'', lit ''heat through'']) listedKeywords \<and>
   \<not> mentionsAny (latin1_toLowerCase (join (lit '' '') [lit ''preheat the oven'', lit ''heat through'']))
        listedKeywords \<and>
   extractCookingMethod latin1_toLowerCase [lit ''preheat the oven'', lit ''heat through''] =
     lit ''baked to perfection'' \<and>
   lit ''baked to perfection'' \<noteq> lit ''expertly prepared''"
  by (simp add: mentionsAny_def listedKeywords_def extractCookingMethod_def latin1_toLowerCase_def
        lit_def Let_def)

text \<open>
  Instructions with both grill and bake in them, in upper and in lower case, and
  instructions with no keyword.
\<close>

theorem cooking_method_selection_example:
  "extractCookingMethod latin1_toLowerCase [lit ''Grill the fish'', lit ''then BAKE it''] =
     lit ''baked to perfection'' \<and>
   extractCookingMethod latin1_toLowerCase [lit ''grill the fish'', lit ''then bake it''] =
     lit ''baked to perfection'' \<and>
   extractCookingMethod latin1_toLowerCase [lit ''Chop the herbs'', lit ''serve cold''] =
     lit ''expertly prepared''"
proof -
  have fixed: "latin1_toLowerCase (lit ''bake'') = lit ''bake''"
    by (simp add: latin1_toLowerCase_def lit_def)
  have keeps: "\<forall>s. str_includes s (lit ''bake'') \<longrightarrow> str_includes (latin1_toLowerCase s) (lit ''bake'')"
    using latin1_toLowerCase_keeps [OF _ fixed] by blast
  have 1: "str_includes (latin1_toLowerCase (join (lit '' '') [lit ''Grill the fish'', lit ''then BAKE it'']))
             (lit ''bake'')"
    by (simp add: latin1_toLowerCase_def lit_def)
  have 2: "\<exists>i \<in> set [lit ''grill the fish'', lit ''then bake it'']. str_includes i (lit ''bake'')"
    by (simp add: lit_def)
  have 3: "\<not> mentionsAny (latin1_toLowerCase (join (lit '' '') [lit ''Chop the herbs'', lit ''serve cold'']))
             (lit ''oven'' # listedKeywords)"
    by (simp add: mentionsAny_def listedKeywords_def latin1_toLowerCase_def lit_def)
  show ?thesis
    using cooking_method_selection [of latin1_toLowerCase "[lit ''Grill the fish'', lit ''then BAKE it'']"]
      cooking_method_selection [of latin1_toLowerCase "[lit ''grill the fish'', lit ''then bake it'']"]
      cooking_method_selection [of latin1_toLowerCase "[lit ''Chop the herbs'', lit ''serve cold'']"]
      keeps 1 2 3
    by blast
qed

subsection \<open>The optional clauses of the prompts\<close>

lemma segment: "r = H @ Y \<Longrightarrow> a @ r = (a @ H) @ Y"
  by simp

lemma generateRecipes_prompt_slots:
  "\<exists>H T. \<forall>excl fl st. generateRecipes_prompt ings pref excl cp fl st =
      H @ generateRecipes_exclusionText excl @ generateRecipes_flavorText fl @
      generateRecipes_styleText st @ T"
  unfolding generateRecipes_prompt_def
  by (intro exI allI)
     (rule segment, rule segment, rule segment, rule segment, rule segment, rule segment,
      rule refl)

lemma reinventRecipe_prompt_slots:
  "\<exists>H T. \<forall>excl fl st. reinventRecipe_prompt fnone snone
        \<lparr>dishName = d, chefPersonality = cp, dietaryPreference = dp,
          excludeIngredients = excl, flavorProfile = fl, recipeStyle = st\<rparr> =
      H @ reinventRecipe_exclusionText excl @ reinventRecipe_flavorText fnone fl @
      reinventRecipe_styleText snone st @ T"
  unfolding reinventRecipe_prompt_def RecipeReinventionRequest.select_convs
  by (intro exI allI)
     (rule segment, rule segment, rule segment, rule segment, rule segment, rule segment,
      rule segment, rule segment, rule segment, rule refl)

lemma clause_nonempty:
  "exclusionClause e \<noteq> []" "flavorClause f \<noteq> []" "styleClause s \<noteq> []"
  "reinventFlavorClause f \<noteq> []" "reinventStyleClause s \<noteq> []"
  by (simp_all add: exclusionClause_def flavorClause_def styleClause_def
        reinventFlavorClause_def reinventStyleClause_def lit_Nil)

lemma generateRecipes_exclusionText_cases:
  "generateRecipes_exclusionText excl =
     (case excl of None \<Rightarrow> [] | Some e \<Rightarrow> if trim e = [] then [] else exclusionClause e)"
  by (auto simp: generateRecipes_exclusionText_def exclusionClause_def trim_def split: option.split)

lemma generateRecipes_flavorText_cases:
  "generateRecipes_flavorText fl =
     (case fl of None \<Rightarrow> []
      | Some f \<Rightarrow> if f = [] \<or> f = lit ''No Preference'' then [] else flavorClause f)"
  by (auto simp: generateRecipes_flavorText_def flavorClause_def split: option.split)

lemma generateRecipes_styleText_cases:
  "generateRecipes_styleText st =
     (case st of None \<Rightarrow> []
      | Some s \<Rightarrow> if s = [] \<or> s = lit ''No Preference'' then [] else styleClause s)"
  by (auto simp: generateRecipes_styleText_def styleClause_def split: option.split)

lemma reinventRecipe_flavorText_cases:
  "reinventRecipe_flavorText fnone fl =
     (case fl of None \<Rightarrow> []
      | Some f \<Rightarrow> if f = [] \<or> f = fnone then [] else reinventFlavorClause f)"
  by (auto simp: reinventRecipe_flavorText_def reinventFlavorClause_def split: option.split)

lemma reinventRecipe_styleText_cases:
  "reinventRecipe_styleText snone st =
     (case st of None \<Rightarrow> []
      | Some s \<Rightarrow> if s = [] \<or> s = snone then [] else reinventStyleClause s)"
  by (auto simp: reinventRecipe_styleText_def reinventStyleClause_def split: option.split)

text \<open>
  Claim C7, as the code has it.  An exclusion text that is left out, empty or made of
  white space only adds nothing to the prompt of \<^verbatim>\<open>generateRecipes\<close>: the
  prompt is the prompt of a call with no exclusion text.  An exclusion text with a
  character that is no white space adds one clause, which holds the text as given, at a
  fixed place of that prompt.
\<close>

theorem exclusion_clause_embedding:
  "((excl = None \<or> (\<exists>e. excl = Some e \<and> trim e = [])) \<longrightarrow>
      generateRecipes_exclusionText excl = [] \<and>
      generateRecipes_prompt ings pref excl cp fl st =
        generateRecipes_prompt ings pref None cp fl st) \<and>
   (trim e \<noteq> [] \<longrightarrow>
      generateRecipes_exclusionText (Some e) = exclusionClause e \<and>
      (\<exists>before after.
         generateRecipes_prompt ings pref None cp fl st = before @ after \<and>
         generateRecipes_prompt ings pref (Some e) cp fl st = before @ exclusionClause e @ after))"
proof -
  obtain H T where slots: "\<And>excl fl st. generateRecipes_prompt ings pref excl cp fl st =
      H @ generateRecipes_exclusionText excl @ generateRecipes_flavorText fl @
      generateRecipes_styleText st @ T"
    using generateRecipes_prompt_slots [of ings pref cp] by blast
  have blank: "generateRecipes_exclusionText excl = []"
    if "excl = None \<or> (\<exists>e. excl = Some e \<and> trim e = [])"
    using that by (auto simp: generateRecipes_exclusionText_cases)
  have "\<exists>before after.
         generateRecipes_prompt ings pref None cp fl st = before @ after \<and>
         generateRecipes_prompt ings pref (Some e) cp fl st = before @ exclusionClause e @ after"
    if "trim e \<noteq> []"
    using that
    by (intro exI [of _ H] exI [of _ "generateRecipes_flavorText fl @ generateRecipes_styleText st @ T"])
       (simp add: slots generateRecipes_exclusionText_cases)
  then show ?thesis
    using blank by (auto simp: slots generateRecipes_exclusionText_cases)
qed


text \<open>
  The claim as the specification words it gives every exclusion text that is not empty a
  clause.  The text of one space is not empty and adds no clause.
\<close>

theorem blank_exclusion_adds_no_clause:
  "lit '' '' \<noteq> [] \<and>
   generateRecipes_exclusionText (Some (lit '' '')) = [] \<and>
   generateRecipes_prompt [lit ''egg''] (lit ''None'') (Some (lit '' '')) NORMAL None None =
     generateRecipes_prompt [lit ''egg''] (lit ''None'') None NORMAL None None"
proof -
  have blank: "trim (lit '' '') = []"
    by (simp add: trim_def isWhiteSpace_def lit_def)
  obtain H T where slots: "\<And>excl fl st.
      generateRecipes_prompt [lit ''egg''] (lit ''None'') excl NORMAL fl st =
      H @ generateRecipes_exclusionText excl @ generateRecipes_flavorText fl @
      generateRecipes_styleText st @ T"
    using generateRecipes_prompt_slots [of "[lit ''egg'']" "lit ''None''" NORMAL] by blast
  show ?thesis
    by (simp add: slots generateRecipes_exclusionText_cases blank lit_Nil)
qed

text \<open>An exclusion text of two spaces, and one that names two foods.\<close>

theorem exclusion_clause_embedding_example:
  "generateRecipes_prompt [lit ''egg''] (lit ''Vegan'') (Some (lit ''  '')) MICHELIN None None =
     generateRecipes_prompt [lit ''egg''] (lit ''Vegan'') None MICHELIN None None \<and>
   (\<exists>before after.
      generateRecipes_prompt [lit ''egg''] (lit ''Vegan'') None MICHELIN None None = before @ after \<and>
      generateRecipes_prompt [lit ''egg''] (lit ''Vegan'') (Some (lit ''peanuts, shellfish'')) MICHELIN
        None None = before @ exclusionClause (lit ''peanuts, shellfish'') @ after)"
proof -
  have blank: "trim (lit ''  '') = []"
    by (simp add: trim_def isWhiteSpace_def lit_def)
  have given: "trim (lit ''peanuts, shellfish'') \<noteq> []"
    by (simp add: trim_def isWhiteSpace_def lit_def)
  show ?thesis
    using exclusion_clause_embedding
      [of "Some (lit ''  '')" "[lit ''egg'']" "lit ''Vegan''" MICHELIN None None
          "lit ''peanuts, shellfish''"]
      blank given
    by simp
qed

lemma generateRecipes_flavor_omitted:
  "generateRecipes_prompt ings pref excl cp fl st = generateRecipes_prompt ings pref excl cp None st
     \<longleftrightarrow> fl = None \<or> fl = Some [] \<or> fl = Some (lit ''No Preference'')"
proof -
  obtain H T where slots: "\<And>excl fl st. generateRecipes_prompt ings pref excl cp fl st =
      H @ generateRecipes_exclusionText excl @ generateRecipes_flavorText fl @
      generateRecipes_styleText st @ T"
    using generateRecipes_prompt_slots [of ings pref cp] by blast
  show ?thesis
    using clause_nonempty
    by (auto simp: slots generateRecipes_flavorText_cases split: option.splits)
qed

lemma generateRecipes_flavor_included:
  assumes "f \<noteq> []" and "f \<noteq> lit ''No Preference''"
  shows "\<exists>before after.
           generateRecipes_prompt ings pref excl cp None st = before @ after \<and>
           generateRecipes_prompt ings pref excl cp (Some f) st = before @ flavorClause f @ after"
proof -
  obtain H T where slots: "\<And>excl fl st. generateRecipes_prompt ings pref excl cp fl st =
      H @ generateRecipes_exclusionText excl @ generateRecipes_flavorText fl @
      generateRecipes_styleText st @ T"
    using generateRecipes_prompt_slots [of ings pref cp] by blast
  show ?thesis
    using assms
    by (intro exI [of _ "H @ generateRecipes_exclusionText excl"]
          exI [of _ "generateRecipes_styleText st @ T"])
       (simp add: slots generateRecipes_flavorText_cases)
qed

lemma generateRecipes_style_omitted:
  "generateRecipes_prompt ings pref excl cp fl st = generateRecipes_prompt ings pref excl cp fl None
     \<longleftrightarrow> st = None \<or> st = Some [] \<or> st = Some (lit ''No Preference'')"
proof -
  obtain H T where slots: "\<And>excl fl st. generateRecipes_prompt ings pref excl cp fl st =
      H @ generateRecipes_exclusionText excl @ generateRecipes_flavorText fl @
      generateRecipes_styleText st @ T"
    using generateRecipes_prompt_slots [of ings pref cp] by blast
  show ?thesis
    using clause_nonempty
    by (auto simp: slots generateRecipes_styleText_cases split: option.splits)
qed

lemma generateRecipes_style_included:
  assumes "s \<noteq> []" and "s \<noteq> lit ''No Preference''"
  shows "\<exists>before after.
           generateRecipes_prompt ings pref excl cp fl None = before @ after \<and>
           generateRecipes_prompt ings pref excl cp fl (Some s) = before @ styleClause s @ after"
proof -
  obtain H T where slots: "\<And>excl fl st. generateRecipes_prompt ings pref excl cp fl st =
      H @ generateRecipes_exclusionText excl @ generateRecipes_flavorText fl @
      generateRecipes_styleText st @ T"
    using generateRecipes_prompt_slots [of ings pref cp] by blast
  show ?thesis
    using assms
    by (intro exI [of _ "H @ generateRecipes_exclusionText excl @ generateRecipes_flavorText fl"]
          exI [of _ T])
       (simp add: slots generateRecipes_styleText_cases)
qed

lemma reinventRecipe_flavor_omitted:
  "reinventRecipe_prompt fnone snone req =
     reinventRecipe_prompt fnone snone (req\<lparr>flavorProfile := None\<rparr>)
     \<longleftrightarrow> flavorProfile req = None \<or> flavorProfile req = Some [] \<or> flavorProfile req = Some fnone"
proof (cases req)
  case (fields d cp dp excl fl st)
  obtain H T where slots: "\<And>excl fl st. reinventRecipe_prompt fnone snone
        \<lparr>dishName = d, chefPersonality = cp, dietaryPreference = dp,
          excludeIngredients = excl, flavorProfile = fl, recipeStyle = st\<rparr> =
      H @ reinventRecipe_exclusionText excl @ reinventRecipe_flavorText fnone fl @
      reinventRecipe_styleText snone st @ T"
    using reinventRecipe_prompt_slots [of fnone snone d cp dp] by blast
  show ?thesis
    using clause_nonempty
    by (auto simp: fields slots reinventRecipe_flavorText_cases split: option.splits)
qed

lemma reinventRecipe_flavor_included:
  assumes "f \<noteq> []" and "f \<noteq> fnone"
  shows "\<exists>before after.
           reinventRecipe_prompt fnone snone (req\<lparr>flavorProfile := None\<rparr>) = before @ after \<and>
           reinventRecipe_prompt fnone snone (req\<lparr>flavorProfile := Some f\<rparr>) =
             before @ reinventFlavorClause f @ after"
proof (cases req)
  case (fields d cp dp excl fl st)
  obtain H T where slots: "\<And>excl fl st. reinventRecipe_prompt fnone snone
        \<lparr>dishName = d, chefPersonality = cp, dietaryPreference = dp,
          excludeIngredients = excl, flavorProfile = fl, recipeStyle = st\<rparr> =
      H @ reinventRecipe_exclusionText excl @ reinventRecipe_flavorText fnone fl @
      reinventRecipe_styleText snone st @ T"
    using reinventRecipe_prompt_slots [of fnone snone d cp dp] by blast
  show ?thesis
    using assms
    by (intro exI [of _ "H @ reinventRecipe_exclusionText excl"]
          exI [of _ "reinventRecipe_styleText snone st @ T"])
       (simp add: fields slots reinventRecipe_flavorText_cases)
qed

lemma reinventRecipe_style_omitted:
  "reinventRecipe_prompt fnone snone req =
     reinventRecipe_prompt fnone snone (req\<lparr>recipeStyle := None\<rparr>)
     \<longleftrightarrow> recipeStyle req = None \<or> recipeStyle req = Some [] \<or> recipeStyle req = Some snone"
proof (cases req)
  case (fields d cp dp excl fl st)
  obtain H T where slots: "\<And>excl fl st. reinventRecipe_prompt fnone snone
        \<lparr>dishName = d, chefPersonality = cp, dietaryPreference = dp,
          excludeIngredients = excl, flavorProfile = fl, recipeStyle = st\<rparr> =
      H @ reinventRecipe_exclusionText excl @ reinventRecipe_flavorText fnone fl @
      reinventRecipe_styleText snone st @ T"
    using reinventRecipe_prompt_slots [of fnone snone d cp dp] by blast
  show ?thesis
    using clause_nonempty
    by (auto simp: fields slots reinventRecipe_styleText_cases split: option.splits)
qed

lemma reinventRecipe_style_included:
  assumes "s \<noteq> []" and "s \<noteq> snone"
  shows "\<exists>before after.
           reinventRecipe_prompt fnone snone (req\<lparr>recipeStyle := None\<rparr>) = before @ after \<and>
           reinventRecipe_prompt fnone snone (req\<lparr>recipeStyle := Some s\<rparr>) =
             before @ reinventStyleClause s @ after"
proof (cases req)
  case (fields d cp dp excl fl st)
  obtain H T where slots: "\<And>excl fl st. reinventRecipe_prompt fnone snone
        \<lparr>dishName = d, chefPersonality = cp, dietaryPreference = dp,
          excludeIngredients = excl, flavorProfile = fl, recipeStyle = st\<rparr> =
      H @ reinventRecipe_exclusionText excl @ reinventRecipe_flavorText fnone fl @
      reinventRecipe_styleText snone st @ T"
    using reinventRecipe_prompt_slots [of fnone snone d cp dp] by blast
  show ?thesis
    using assms
    by (intro exI [of _ "H @ reinventRecipe_exclusionText excl @ reinventRecipe_flavorText fnone fl"]
          exI [of _ T])
       (simp add: fields slots reinventRecipe_styleText_cases)
qed

text \<open>
  Claim C8, as the code has it.  In the prompts of \<^verbatim>\<open>generateRecipes\<close> and
  \<^verbatim>\<open>reinventRecipe\<close> the flavour clause and the style clause are left out
  exactly when the filter is left out, is the empty string, or is the sentinel
  (\<^verbatim>\<open>No Preference\<close> in \<^verbatim>\<open>generateRecipes\<close>, the member
  \<^verbatim>\<open>NONE\<close> of the enum in \<^verbatim>\<open>reinventRecipe\<close>): then the prompt is
  the prompt of a call without the filter.  Any other filter adds one clause, which holds
  the filter as given, at a fixed place of that prompt.
\<close>

theorem filter_clause_embedding:
  "(generateRecipes_prompt ings pref excl cp fl st = generateRecipes_prompt ings pref excl cp None st
      \<longleftrightarrow> fl = None \<or> fl = Some [] \<or> fl = Some (lit ''No Preference'')) \<and>
   (f \<noteq> [] \<and> f \<noteq> lit ''No Preference'' \<longrightarrow>
      (\<exists>before after.
         generateRecipes_prompt ings pref excl cp None st = before @ after \<and>
         generateRecipes_prompt ings pref excl cp (Some f) st = before @ flavorClause f @ after)) \<and>
   (generateRecipes_prompt ings pref excl cp fl st = generateRecipes_prompt ings pref excl cp fl None
      \<longleftrightarrow> st = None \<or> st = Some [] \<or> st = Some (lit ''No Preference'')) \<and>
   (s \<noteq> [] \<and> s \<noteq> lit ''No Preference'' \<longrightarrow>
      (\<exists>before after.
         generateRecipes_prompt ings pref excl cp fl None = before @ after \<and>
         generateRecipes_prompt ings pref excl cp fl (Some s) = before @ styleClause s @ after)) \<and>
   (reinventRecipe_prompt fnone snone req =
      reinventRecipe_prompt fnone snone (req\<lparr>flavorProfile := None\<rparr>)
      \<longleftrightarrow> flavorProfile req = None \<or> flavorProfile req = Some [] \<or>
          flavorProfile req = Some fnone) \<and>
   (f \<noteq> [] \<and> f \<noteq> fnone \<longrightarrow>
      (\<exists>before after.
         reinventRecipe_prompt fnone snone (req\<lparr>flavorProfile := None\<rparr>) = before @ after \<and>
         reinventRecipe_prompt fnone snone (req\<lparr>flavorProfile := Some f\<rparr>) =
           before @ reinventFlavorClause f @ after)) \<and>
   (reinventRecipe_prompt fnone snone req =
      reinventRecipe_prompt fnone snone (req\<lparr>recipeStyle := None\<rparr>)
      \<longleftrightarrow> recipeStyle req = None \<or> recipeStyle req = Some [] \<or> recipeStyle req = Some snone) \<and>
   (s \<noteq> [] \<and> s \<noteq> snone \<longrightarrow>
      (\<exists>before after.
         reinventRecipe_prompt fnone snone (req\<lparr>recipeStyle := None\<rparr>) = before @ after \<and>
         reinventRecipe_prompt fnone snone (req\<lparr>recipeStyle := Some s\<rparr>) =
           before @ reinventStyleClause s @ after))"
  by (intro conjI impI generateRecipes_flavor_omitted generateRecipes_flavor_included
        generateRecipes_style_omitted generateRecipes_style_included
        reinventRecipe_flavor_omitted reinventRecipe_flavor_included
        reinventRecipe_style_omitted reinventRecipe_style_included; simp)

text \<open>
  The claim as the specification words it leaves the clause out only for a filter that is
  absent or the sentinel.  The empty string is neither, and adds no clause.
\<close>

theorem empty_flavor_adds_no_clause:
  "Some [] \<noteq> (None :: jsstring option) \<and>
   [] \<noteq> lit ''No Preference'' \<and>
   generateRecipes_flavorText (Some []) = [] \<and>
   generateRecipes_prompt [lit ''egg''] (lit ''None'') None NORMAL (Some []) None =
     generateRecipes_prompt [lit ''egg''] (lit ''None'') None NORMAL None None"
  by (simp add: generateRecipes_flavor_omitted generateRecipes_flavorText_cases lit_Nil)

text \<open>
  The sentinel as flavour and Thai as style for \<^verbatim>\<open>generateRecipes\<close>, and a
  spicy reinvention of Maggi.
\<close>

theorem filter_clause_embedding_example:
  "generateRecipes_prompt [lit ''egg''] (lit ''Vegan'') None QUICK_CHEF (Some (lit ''No Preference''))
      (Some (lit ''Thai'')) =
     generateRecipes_prompt [lit ''egg''] (lit ''Vegan'') None QUICK_CHEF None (Some (lit ''Thai'')) \<and>
   generateRecipes_prompt [lit ''egg''] (lit ''Vegan'') None QUICK_CHEF (Some (lit ''No Preference''))
      (Some (lit ''Thai'')) \<noteq>
     generateRecipes_prompt [lit ''egg''] (lit ''Vegan'') None QUICK_CHEF (Some (lit ''No Preference''))
       None \<and>
   (\<exists>before after.
      generateRecipes_prompt [lit ''egg''] (lit ''Vegan'') None QUICK_CHEF None (Some (lit ''Thai'')) =
        before @ after \<and>
      generateRecipes_prompt [lit ''egg''] (lit ''Vegan'') None QUICK_CHEF (Some (lit ''Spicy''))
        (Some (lit ''Thai'')) = before @ flavorClause (lit ''Spicy'') @ after) \<and>
   reinventRecipe_prompt (lit ''No Preference'') (lit ''No Preference'')
      \<lparr>dishName = lit ''Maggi'', chefPersonality = BUDGET_MOM, dietaryPreference = None,
        excludeIngredients = None, flavorProfile = Some (lit ''Spicy''), recipeStyle = None\<rparr> \<noteq>
     reinventRecipe_prompt (lit ''No Preference'') (lit ''No Preference'')
      \<lparr>dishName = lit ''Maggi'', chefPersonality = BUDGET_MOM, dietaryPreference = None,
        excludeIngredients = None, flavorProfile = None, recipeStyle = None\<rparr> \<and>
   (\<exists>before after.
      reinventRecipe_prompt (lit ''No Preference'') (lit ''No Preference'')
        \<lparr>dishName = lit ''Maggi'', chefPersonality = BUDGET_MOM, dietaryPreference = None,
          excludeIngredients = None, flavorProfile = Some (lit ''Spicy''), recipeStyle = None\<rparr> =
        before @ after \<and>
      reinventRecipe_prompt (lit ''No Preference'') (lit ''No Preference'')
        \<lparr>dishName = lit ''Maggi'', chefPersonality = BUDGET_MOM, dietaryPreference = None,
          excludeIngredients = None, flavorProfile = Some (lit ''Spicy''),
          recipeStyle = Some (lit ''Thai'')\<rparr> = before @ reinventStyleClause (lit ''Thai'') @ after)"
proof -
  let ?req = "\<lparr>dishName = lit ''Maggi'', chefPersonality = BUDGET_MOM, dietaryPreference = None,
        excludeIngredients = None, flavorProfile = Some (lit ''Spicy''), recipeStyle = None\<rparr>"
  have names: "lit ''Spicy'' \<noteq> []" "lit ''Spicy'' \<noteq> lit ''No Preference''"
    "lit ''Thai'' \<noteq> []" "lit ''Thai'' \<noteq> lit ''No Preference''"
    by (simp_all add: lit_eq_iff lit_Nil)
  note inst = filter_clause_embedding
        [of "[lit ''egg'']" "lit ''Vegan''" None QUICK_CHEF "Some (lit ''No Preference'')"
            "Some (lit ''Thai'')" "lit ''Spicy''" "lit ''Thai''"
            "lit ''No Preference''" "lit ''No Preference''" ?req]
  have flavor: "Some (lit ''No Preference'') = Some (lit ''No Preference'')"
    and style: "Some (lit ''Thai'') \<noteq> None" "Some (lit ''Thai'') \<noteq> Some []"
      "Some (lit ''Thai'') \<noteq> Some (lit ''No Preference'')"
    and spicy: "flavorProfile ?req \<noteq> None" "flavorProfile ?req \<noteq> Some []"
      "flavorProfile ?req \<noteq> Some (lit ''No Preference'')"
    and none: "?req\<lparr>flavorProfile := None\<rparr> =
      \<lparr>dishName = lit ''Maggi'', chefPersonality = BUDGET_MOM, dietaryPreference = None,
        excludeIngredients = None, flavorProfile = None, recipeStyle = None\<rparr>"
      "?req\<lparr>recipeStyle := None\<rparr> = ?req"
      "?req\<lparr>recipeStyle := Some (lit ''Thai'')\<rparr> =
      \<lparr>dishName = lit ''Maggi'', chefPersonality = BUDGET_MOM, dietaryPreference = None,
        excludeIngredients = None, flavorProfile = Some (lit ''Spicy''),
        recipeStyle = Some (lit ''Thai'')\<rparr>"
    using names by simp_all
  show ?thesis
    using inst names flavor style spicy unfolding none by blast
qed

subsection \<open>The image chain on a name beyond Latin-1\<close>

lemma btoa_wide:
  "c \<in> set s \<Longrightarrow> 0xFF < c \<Longrightarrow> btoa s = Inl InvalidCharacterError"
  by (auto simp: btoa_def list_ex_iff)

lemma lit_no_surrogate:
  assumes "c \<in> set (lit s)"
  shows "\<not> isLeadSurrogate c \<and> \<not> isTrailSurrogate c"
proof -
  from assms obtain x where "c = of_char x"
    by (auto simp: lit_def)
  then have "unat c < 256"
    by (simp add: unat_of_char)
  then show ?thesis
    by (simp add: isLeadSurrogate_def isTrailSurrogate_def word_le_nat_alt)
qed

lemma encodeURIComponent_returns:
  "\<forall>c \<in> set s. \<not> isLeadSurrogate c \<and> \<not> isTrailSurrogate c
     \<Longrightarrow> \<exists>p. encodeURIComponent s = Inr p"
  by (induction s rule: encodeURIComponent.induct) (auto simp: andThen_def)

lemma placeholder_throws:
  assumes "getContext2d h = None" and "c \<in> set name" and "0xFF < c"
  shows "generatePlaceholderImage h name = Inl InvalidCharacterError"
proof -
  have "btoa (before @ name @ after) = Inl InvalidCharacterError" for before after
    using assms(2,3) by (intro btoa_wide [of c]) auto
  with assms(1) show ?thesis
    by (simp add: generatePlaceholderImage_def andThen_Inl)
qed

lemma offline_fallback:
  "generateRecipeImageFallback offline_host pho w =
     (Inl InvalidCharacterError,
      w\<lparr>logged := logged w @ [(lit ''Error with fallback image generation:'', ArgError TypeError)],
        draws := Suc (draws w)\<rparr>)"
proof -
  have wide: "(0x1EDF :: 16 word) \<in> set (recipeName pho)" "(0xFF :: 16 word) < 0x1EDF"
    by (simp_all add: pho_def)
  have "\<forall>c \<in> set (before @ recipeName pho @ mid @ join (lit '' '') (take 3 (ingredients pho)) @ after).
          \<not> isLeadSurrogate c \<and> \<not> isTrailSurrogate c"
    if "before = lit b" "mid = lit m" "after = lit a" for before mid after b m a
    using that lit_no_surrogate
    by (auto simp: pho_def isLeadSurrogate_def isTrailSurrogate_def)
  then have "\<exists>p. encodeURIComponent
      (lit b @ recipeName pho @ lit m @ join (lit '' '') (take 3 (ingredients pho)) @ lit a) = Inr p"
    for b m a
    by (intro encodeURIComponent_returns) blast
  then obtain p where "encodeURIComponent
      (lit ''professional food photography '' @ recipeName pho @ lit '' with '' @
       join (lit '' '') (take 3 (ingredients pho)) @
       lit '' beautifully plated restaurant quality'') = Inr p"
    by blast
  then have attempt: "fallbackAttempt offline_host pho n = (Inl TypeError, Suc n)" for n
    by (simp add: fallbackAttempt_def Let_def offline_host_def andThen_Inl)
  have "generatePlaceholderImage offline_host (recipeName pho) = Inl InvalidCharacterError"
    by (rule placeholder_throws [OF _ wide]) (simp add: offline_host_def)
  then show ?thesis
    by (simp add: generateRecipeImageFallback_def attempt)
qed

text \<open>
  Claim C1 says that \<^verbatim>\<open>generateRecipeImage\<close> never throws and returns a
  placeholder when both backends fail.  On a host with no 2D context the placeholder is
  built with \<^verbatim>\<open>btoa\<close>, which throws for a name with a code unit above U+00FF.
  For the recipe \<^verbatim>\<open>pho\<close> on the host \<^verbatim>\<open>offline_host\<close> the primary
  backend answers with a status that is not ok, the fallback backend fails, the
  placeholder throws inside the \<^verbatim>\<open>try\<close> of \<^verbatim>\<open>generateRecipeImage\<close>,
  whose \<^verbatim>\<open>catch\<close> runs the fallback once more, and the second placeholder's
  \<^verbatim>\<open>InvalidCharacterError\<close> is what the promise rejects with.
\<close>

theorem placeholder_throws_on_wide_name:
  "generateRecipeImage offline_host pho =
     ([(lit ''Error with fallback image generation:'', ArgError TypeError),
       (lit ''Error generating image with Hugging Face:'', ArgError InvalidCharacterError),
       (lit ''Error with fallback image generation:'', ArgError TypeError)],
      Inl InvalidCharacterError)"
proof -
  have "primaryAttempt offline_host pho w = generateRecipeImageFallback offline_host pho w" for w
    by (simp add: primaryAttempt_def Let_def offline_host_def)
  then show ?thesis
    by (simp add: generateRecipeImage_def offline_fallback)
qed

subsection \<open>Where the image chain keeps its promise\<close>

lemma lit_latin1:
  assumes "c \<in> set (lit s)"
  shows "c \<le> 0xFF"
proof -
  from assms obtain x where "c = of_char x"
    by (auto simp: lit_def)
  then have "unat c < 256"
    by (simp add: unat_of_char)
  then show ?thesis
    by (simp add: word_le_nat_alt)
qed

lemma set_join: "set (join sep xs) \<subseteq> set sep \<union> \<Union> (set ` set xs)"
  by (induction sep xs rule: join.induct) auto

lemma placeholder_returns:
  assumes "getContext2d h \<noteq> None \<or> (\<forall>c \<in> set name. c \<le> 0xFF)"
  shows "\<exists>img. generatePlaceholderImage h name = Inr img"
proof (cases "getContext2d h")
  case None
  with assms have name: "\<forall>c \<in> set name. c \<le> 0xFF"
    by simp
  have "\<not> list_ex (\<lambda>c. 0xFF < c) (lit before @ name @ lit after)" for before after
    using name lit_latin1 by (fastforce simp: list_ex_iff)
  then show ?thesis
    using None by (simp add: generatePlaceholderImage_def btoa_def andThen_Inr)
next
  case (Some ctx)
  then show ?thesis
    by (simp add: generatePlaceholderImage_def Let_def)
qed

lemma fallback_returns:
  assumes "generatePlaceholderImage h (recipeName r) = Inr img"
  shows "\<exists>img' w'. generateRecipeImageFallback h r w = (Inr img', w')"
  using assms
  by (cases "fallbackAttempt h r (draws w)")
     (auto simp: generateRecipeImageFallback_def split: sum.splits)

lemma join_no_surrogate:
  assumes "\<forall>c \<in> set sep. \<not> isLeadSurrogate c \<and> \<not> isTrailSurrogate c"
    and "\<forall>i \<in> set xs. \<forall>c \<in> set i. \<not> isLeadSurrogate c \<and> \<not> isTrailSurrogate c"
  shows "\<forall>c \<in> set (join sep xs). \<not> isLeadSurrogate c \<and> \<not> isTrailSurrogate c"
  using assms set_join [of sep xs] by blast

lemma fallback_prompt_encodes:
  assumes "\<forall>c \<in> set (recipeName r). \<not> isLeadSurrogate c \<and> \<not> isTrailSurrogate c"
    and "\<forall>i \<in> set (ingredients r). \<forall>c \<in> set i. \<not> isLeadSurrogate c \<and> \<not> isTrailSurrogate c"
  shows "\<exists>p. encodeURIComponent
           (lit a @ recipeName r @ lit b @ join (lit '' '') (take 3 (ingredients r)) @ lit c) = Inr p"
proof -
  have "\<forall>i \<in> set (take 3 (ingredients r)). \<forall>c \<in> set i. \<not> isLeadSurrogate c \<and> \<not> isTrailSurrogate c"
    using assms(2) by (meson in_set_takeD)
  then have "\<forall>c \<in> set (join (lit '' '') (take 3 (ingredients r))).
               \<not> isLeadSurrogate c \<and> \<not> isTrailSurrogate c"
    using lit_no_surrogate by (intro join_no_surrogate) blast+
  with assms(1) lit_no_surrogate show ?thesis
    by (intro encodeURIComponent_returns) auto
qed

lemma failed_primary:
  assumes "\<forall>prompt. case fetchPrimary h prompt of
             Inl e \<Rightarrow> True
           | Inr response \<Rightarrow> \<not> ok response \<or> isl (andThen (blob response) (readAsDataURL h))"
  shows "(\<exists>e. primaryAttempt h r w = (Inl e, w)) \<or>
         primaryAttempt h r w = generateRecipeImageFallback h r w"
proof -
  have "\<exists>p. \<forall>d::unit. primaryAttempt h r w =
      (case fetchPrimary h p of
         Inl error \<Rightarrow> (Inl error, w)
       | Inr response \<Rightarrow>
           if \<not> ok response then generateRecipeImageFallback h r w
           else (andThen (blob response) (\<lambda>imageBlob. readAsDataURL h imageBlob), w))"
    unfolding primaryAttempt_def Let_def by (intro exI allI) (rule refl)
  then obtain p where p: "primaryAttempt h r w =
      (case fetchPrimary h p of
         Inl error \<Rightarrow> (Inl error, w)
       | Inr response \<Rightarrow>
           if \<not> ok response then generateRecipeImageFallback h r w
           else (andThen (blob response) (\<lambda>imageBlob. readAsDataURL h imageBlob), w))"
    by blast
  from assms have "case fetchPrimary h p of
             Inl e \<Rightarrow> True
           | Inr response \<Rightarrow> \<not> ok response \<or> isl (andThen (blob response) (readAsDataURL h))"
    by blast
  then show ?thesis
    unfolding p by (auto split: sum.splits simp: isl_def)
qed


lemma split_nonempty: "split c s \<noteq> []"
  by (induction s) (auto split: list.splits)

lemma filter_concat_split:
  "filter (\<lambda>x. x \<noteq> c) (concat (split c s)) = filter (\<lambda>x. x \<noteq> c) s"
proof (induction s)
  case Nil
  then show ?case by simp
next
  case (Cons x xs)
  obtain y ys where pieces: "split c xs = y # ys"
    using split_nonempty [of c xs] by (cases "split c xs") auto
  with Cons show ?case
    by (cases "x = c") simp_all
qed

lemma space_filtered: "filter (\<lambda>x. x \<noteq> (0x20 :: 16 word)) (lit '' '') = []"
  by (simp add: lit_def)

lemma wrapWord_keeps:
  assumes "wrapWord width (lines, cur) word = (lines', cur')"
  shows "filter (\<lambda>x. x \<noteq> 0x20) (concat (lines' @ [cur'])) =
         filter (\<lambda>x. x \<noteq> 0x20) (concat (lines @ [cur])) @ filter (\<lambda>x. x \<noteq> 0x20) word"
proof -
  let ?testLine = "cur @ (if cur \<noteq> [] then lit '' '' else []) @ word"
  have testLine: "filter (\<lambda>x. x \<noteq> 0x20) ?testLine =
                  filter (\<lambda>x. x \<noteq> 0x20) cur @ filter (\<lambda>x. x \<noteq> 0x20) word"
    by (simp add: space_filtered)
  show ?thesis
  proof (cases "400 < width ?testLine \<and> cur \<noteq> []")
    case True
    with assms have "lines' = lines @ [cur]" and "cur' = word"
      by (auto simp: wrapWord_def Let_def split: if_splits)
    then show ?thesis
      by simp
  next
    case False
    with assms have "lines' = lines" and "cur' = ?testLine"
      by (auto simp: wrapWord_def Let_def split: if_splits)
    then show ?thesis
      using testLine by simp
  qed
qed

lemma wrap_keeps:
  assumes "foldl (wrapWord width) (lines, cur) ws = (lines', cur')"
  shows "filter (\<lambda>x. x \<noteq> 0x20) (concat (lines' @ [cur'])) =
         filter (\<lambda>x. x \<noteq> 0x20) (concat (lines @ [cur])) @ filter (\<lambda>x. x \<noteq> 0x20) (concat ws)"
  using assms
proof (induction ws arbitrary: lines cur)
  case Nil
  then show ?case by simp
next
  case (Cons w ws)
  obtain l c where step: "wrapWord width (lines, cur) w = (l, c)"
    by (cases "wrapWord width (lines, cur) w")
  with Cons.prems have "foldl (wrapWord width) (l, c) ws = (lines', cur')"
    by simp
  from Cons.IH [OF this] wrapWord_keeps [OF step] show ?case
    by simp
qed

text \<open>
  When the primary backend fails, by a rejected request, a status that is not ok or a body
  that cannot be read, and the fallback backend answers with an image that the reader
  turns into a data URL, \<^verbatim>\<open>generateRecipeImage\<close> returns that data URL, for
  every recipe whose name and ingredients hold no surrogate without its partner.
\<close>

theorem fallback_image_is_returned:
  assumes "\<forall>prompt. case fetchPrimary h prompt of
             Inl e \<Rightarrow> True
           | Inr response \<Rightarrow> \<not> ok response \<or> isl (andThen (blob response) (readAsDataURL h))"
    and "\<forall>c \<in> set (recipeName r). \<not> isLeadSurrogate c \<and> \<not> isTrailSurrogate c"
    and "\<forall>i \<in> set (ingredients r). \<forall>c \<in> set i. \<not> isLeadSurrogate c \<and> \<not> isTrailSurrogate c"
    and "\<forall>n imageUrl. fetchFallback h n imageUrl = Inr answer"
    and "ok answer" and "blob answer = Inr imageBlob" and "readAsDataURL h imageBlob = Inr img"
  shows "snd (generateRecipeImage h r) = Inr img"
proof -
  have attempt: "fallbackAttempt h r n = (Inr img, Suc n)" for n
  proof -
    obtain p where "encodeURIComponent
        (lit ''professional food photography '' @ recipeName r @ lit '' with '' @
         join (lit '' '') (take 3 (ingredients r)) @
         lit '' beautifully plated restaurant quality'') = Inr p"
      using fallback_prompt_encodes [OF assms(2,3)] by blast
    then show ?thesis
      using assms(4-7) by (simp add: fallbackAttempt_def Let_def andThen_Inr)
  qed
  have fallback: "generateRecipeImageFallback h r w = (Inr img, w\<lparr>draws := Suc (draws w)\<rparr>)" for w
    by (simp add: generateRecipeImageFallback_def attempt)
  from failed_primary [OF assms(1), of r "\<lparr>logged = [], draws = 0\<rparr>"]
  show ?thesis
    by (auto simp: generateRecipeImage_def fallback)
qed

text \<open>The recipe \<^verbatim>\<open>pho\<close> on a host whose fallback backend answers.\<close>

theorem fallback_image_is_returned_example:
  "snd (generateRecipeImage fallback_only_host pho) = Inr (lit ''data:image/jpeg;base64,/9j/'')"
proof -
  have surrogates: "\<forall>c \<in> set (recipeName pho). \<not> isLeadSurrogate c \<and> \<not> isTrailSurrogate c"
    "\<forall>i \<in> set (ingredients pho). \<forall>c \<in> set i. \<not> isLeadSurrogate c \<and> \<not> isTrailSurrogate c"
    using lit_no_surrogate by (auto simp: pho_def isLeadSurrogate_def isTrailSurrogate_def)
  show ?thesis
    by (rule fallback_image_is_returned
          [where answer = "\<lparr>ok = True, blob = Inr [0xFF, 0xD8, 0xFF]\<rparr>"
             and imageBlob = "[0xFF, 0xD8, 0xFF]", OF _ surrogates])
       (simp_all add: fallback_only_host_def)
qed

text \<open>
  \<^verbatim>\<open>generateRecipeImage\<close> returns an image, and throws nothing, on every host
  that has a 2D context and for every recipe whose name stays below U+0100.
\<close>

theorem image_chain_returns:
  assumes "getContext2d h \<noteq> None \<or> (\<forall>c \<in> set (recipeName r). c \<le> 0xFF)"
  shows "\<exists>img. snd (generateRecipeImage h r) = Inr img"
proof -
  from placeholder_returns [OF assms]
  obtain img where "generatePlaceholderImage h (recipeName r) = Inr img"
    by blast
  then have fallback: "\<exists>img' w'. generateRecipeImageFallback h r w = (Inr img', w')" for w
    by (rule fallback_returns)
  obtain res w where first: "primaryAttempt h r \<lparr>logged = [], draws = 0\<rparr> = (res, w)"
    by (cases "primaryAttempt h r \<lparr>logged = [], draws = 0\<rparr>")
  show ?thesis
  proof (cases res)
    case (Inl error)
    obtain img' w' where "generateRecipeImageFallback h r
        (w\<lparr>logged := logged w @
           [(lit ''Error generating image with Hugging Face:'', ArgError error)]\<rparr>) =
          (Inr img', w')"
      using fallback by blast
    with first Inl show ?thesis
      by (simp add: generateRecipeImage_def)
  next
    case (Inr img')
    with first show ?thesis
      by (simp add: generateRecipeImage_def)
  qed
qed

text \<open>
  A name in ASCII on the host without a 2D context, and the name \<^verbatim>\<open>pho\<close> on
  the host with one.
\<close>

theorem image_chain_returns_example:
  "(\<exists>img. snd (generateRecipeImage offline_host leek_soup) = Inr img) \<and>
   (\<exists>img. snd (generateRecipeImage offline_canvas_host pho) = Inr img)"
proof -
  have 1: "getContext2d offline_host \<noteq> None \<or> (\<forall>c \<in> set (recipeName leek_soup). c \<le> 0xFF)"
    using lit_latin1 by (auto simp: leek_soup_def)
  have 2: "getContext2d offline_canvas_host \<noteq> None \<or> (\<forall>c \<in> set (recipeName pho). c \<le> 0xFF)"
    by (simp add: offline_canvas_host_def)
  show ?thesis
    using image_chain_returns [OF 1] image_chain_returns [OF 2] by simp
qed


text \<open>
  When both backends fail, what \<^verbatim>\<open>generateRecipeImage\<close> returns or throws is
  what \<^verbatim>\<open>generatePlaceholderImage\<close> returns or throws for the name of the
  recipe.
\<close>

theorem both_backends_fail:
  assumes "\<forall>prompt. case fetchPrimary h prompt of
             Inl e \<Rightarrow> True
           | Inr response \<Rightarrow> \<not> ok response \<or> isl (andThen (blob response) (readAsDataURL h))"
    and "\<forall>n imageUrl. case fetchFallback h n imageUrl of
             Inl e \<Rightarrow> True
           | Inr response \<Rightarrow> \<not> ok response \<or> isl (andThen (blob response) (readAsDataURL h))"
  shows "snd (generateRecipeImage h r) = generatePlaceholderImage h (recipeName r)"
proof -
  have attempt: "\<exists>e n'. fallbackAttempt h r n = (Inl e, n')" for n
  proof -
    have "isl (andThen (fetchFallback h n imageUrl) (\<lambda>response.
              if \<not> ok response then Inl (Error (lit ''Failed to generate image''))
              else andThen (blob response) (\<lambda>imageBlob. readAsDataURL h imageBlob)))" for imageUrl
      using assms(2) [rule_format, of n imageUrl]
      by (auto simp: andThen_def split: sum.splits)
    then show ?thesis
      by (auto simp: fallbackAttempt_def Let_def isl_def split: sum.splits)
  qed
  have fallback: "\<exists>w'. generateRecipeImageFallback h r w =
      (generatePlaceholderImage h (recipeName r), w')" for w
    using attempt [of "draws w"] by (auto simp: generateRecipeImageFallback_def)
  from failed_primary [OF assms(1), of r "\<lparr>logged = [], draws = 0\<rparr>"]
  show ?thesis
  proof
    assume "\<exists>e. primaryAttempt h r \<lparr>logged = [], draws = 0\<rparr> = (Inl e, \<lparr>logged = [], draws = 0\<rparr>)"
    then obtain e where first:
      "primaryAttempt h r \<lparr>logged = [], draws = 0\<rparr> = (Inl e, \<lparr>logged = [], draws = 0\<rparr>)"
      by blast
    obtain w' where "generateRecipeImageFallback h r
        (\<lparr>logged = [], draws = 0\<rparr>\<lparr>logged := logged \<lparr>logged = [], draws = 0\<rparr> @
           [(lit ''Error generating image with Hugging Face:'', ArgError e)]\<rparr>) =
        (generatePlaceholderImage h (recipeName r), w')"
      using fallback by blast
    then show ?thesis
      by (simp add: generateRecipeImage_def first)
  next
    assume same: "primaryAttempt h r \<lparr>logged = [], draws = 0\<rparr> =
                    generateRecipeImageFallback h r \<lparr>logged = [], draws = 0\<rparr>"
    obtain w where first: "generateRecipeImageFallback h r \<lparr>logged = [], draws = 0\<rparr> =
        (generatePlaceholderImage h (recipeName r), w)"
      using fallback by blast
    show ?thesis
    proof (cases "generatePlaceholderImage h (recipeName r)")
      case (Inl e)
      obtain w' where "generateRecipeImageFallback h r
          (w\<lparr>logged := logged w @
             [(lit ''Error generating image with Hugging Face:'', ArgError e)]\<rparr>) =
          (generatePlaceholderImage h (recipeName r), w')"
        using fallback by blast
      then show ?thesis
        using Inl by (simp add: generateRecipeImage_def same first)
    next
      case (Inr img)
      then show ?thesis
        by (simp add: generateRecipeImage_def same first)
    qed
  qed
qed

text \<open>The offline host, for a name in ASCII and for the name \<^verbatim>\<open>pho\<close>.\<close>

theorem both_backends_fail_example:
  "snd (generateRecipeImage offline_host leek_soup) =
     generatePlaceholderImage offline_host (recipeName leek_soup) \<and>
   snd (generateRecipeImage offline_host pho) = Inl InvalidCharacterError"
proof -
  have "generatePlaceholderImage offline_host (recipeName pho) = Inl InvalidCharacterError"
    by (rule placeholder_throws [of _ "0x1EDF"]) (simp_all add: offline_host_def pho_def)
  moreover have "snd (generateRecipeImage offline_host x) =
      generatePlaceholderImage offline_host (recipeName x)" for x
    by (rule both_backends_fail) (simp_all add: offline_host_def)
  ultimately show ?thesis
    by simp
qed


text \<open>
  With a 2D context the placeholder is the data URL of a canvas with the gradient and at
  least one line of text, and the lines hold, in order, every code unit of the name that
  is no space.
\<close>

theorem canvas_placeholder_draws_the_name:
  assumes "getContext2d h = Some ctx"
  shows "\<exists>lines. lines \<noteq> [] \<and>
           filter (\<lambda>c. c \<noteq> 0x20) (concat lines) = filter (\<lambda>c. c \<noteq> 0x20) name \<and>
           generatePlaceholderImage h name =
             Inr (toDataURL ctx
                    (FillGradient (lit ''#ff6b6b'') (lit ''#4ecdc4'') #
                     map (\<lambda>(index, line).
                            FillText line 256
                              (256 - (int (length lines) - 1) * 30 div 2 + int index * 30))
                       (enumerate 0 lines)))"
proof -
  obtain lines cur where wrapped:
    "foldl (wrapWord (measureText ctx)) ([], []) (split 0x20 name) = (lines, cur)"
    by (cases "foldl (wrapWord (measureText ctx)) ([], []) (split 0x20 name)")
  from wrap_keeps [OF wrapped]
  have "filter (\<lambda>c. c \<noteq> 0x20) (concat (lines @ [cur])) = filter (\<lambda>c. c \<noteq> 0x20) name"
    by (simp add: filter_concat_split)
  then show ?thesis
    using assms wrapped
    by (intro exI [of _ "lines @ [cur]"]) (simp add: generatePlaceholderImage_def Let_def)
qed

text \<open>The name \<^verbatim>\<open>pho\<close> on the offline host with a canvas.\<close>

theorem canvas_placeholder_example:
  "\<exists>lines. lines \<noteq> [] \<and>
     filter (\<lambda>c. c \<noteq> 0x20) (concat lines) = filter (\<lambda>c. c \<noteq> 0x20) (recipeName pho) \<and>
     generatePlaceholderImage offline_canvas_host (recipeName pho) =
       Inr (toDataURL example_canvas
              (FillGradient (lit ''#ff6b6b'') (lit ''#4ecdc4'') #
               map (\<lambda>(index, line).
                      FillText line 256
                        (256 - (int (length lines) - 1) * 30 div 2 + int index * 30))
                 (enumerate 0 lines)))"
  by (rule canvas_placeholder_draws_the_name) (simp add: offline_canvas_host_def)

end
